theory Spec2Isabelle
  imports Main "HOL-Library.Char_ord" "HOL-Library.List_Lexorder" "HOL-Library.Sublist"
begin

section \<open>Python values, strings and dictionaries\<close>

text \<open>
  The values that flow through \<^verbatim>\<open>app.py\<close> are \<^verbatim>\<open>None\<close> and \<^verbatim>\<open>str\<close>. A string is a list of
  characters, read as code points below 256.
\<close>

datatype pyval = PyNone | Str string

text \<open>
  An exception is an instance of Python's \<^verbatim>\<open>Exception\<close>, known by its class name: these
  are what \<^verbatim>\<open>except Exception\<close> catches. A function that may raise returns a sum, the
  exception on the left.
\<close>

datatype exception = Exception string

text \<open>Truthiness, as \<^verbatim>\<open>or\<close> and \<^verbatim>\<open>if\<close> test it: \<^verbatim>\<open>None\<close> and the empty string are false.\<close>

fun truthy :: "pyval \<Rightarrow> bool" where
  "truthy PyNone = False"
| "truthy (Str s) = (s \<noteq> [])"

definition py_or :: "pyval \<Rightarrow> pyval \<Rightarrow> pyval" where
  "py_or a b = (if truthy a then a else b)"

text \<open>What an f-string writes for a value: \<^verbatim>\<open>f"{v}"\<close>.\<close>

fun format :: "pyval \<Rightarrow> string" where
  "format PyNone = ''None''"
| "format (Str s) = s"

text \<open>Decimal rendering of an integer, \<^verbatim>\<open>f"{1000+i}"\<close>.\<close>

definition digit :: "nat \<Rightarrow> char" where
  "digit d = ''0123456789'' ! d"

fun str_nat :: "nat \<Rightarrow> string" where
  "str_nat n = (if n < 10 then [digit n] else str_nat (n div 10) @ [digit (n mod 10)])"

declare str_nat.simps [simp del]

definition str_int :: "int \<Rightarrow> string" where
  "str_int i = (if i < 0 then CHR ''-'' # str_nat (nat (- i)) else str_nat (nat i))"

text \<open>\<^verbatim>\<open>range(n)\<close>: the integers from 0 up to \<open>n - 1\<close>, none when \<open>n \<le> 0\<close>.\<close>

definition py_range :: "int \<Rightarrow> int list" where
  "py_range n = [0..n - 1]"

text \<open>A dict literal, in insertion order: the rows both producers append.\<close>

type_synonym pydict = "(string \<times> pyval) list"

section \<open>The pandas table\<close>

text \<open>
  A \<^verbatim>\<open>DataFrame\<close> is its column labels and its rows; a row keeps the dict it was built from.
  The index is left out: every export here is made with \<^verbatim>\<open>index=False\<close>.
\<close>

record dataframe =
  columns :: "string list"
  rows :: "pydict list"

text \<open>Keys in order of first appearance.\<close>

fun first_seen :: "'a list \<Rightarrow> 'a list \<Rightarrow> 'a list" where
  "first_seen seen [] = []"
| "first_seen seen (x # xs) =
     (if x \<in> set seen then first_seen seen xs else x # first_seen (x # seen) xs)"

text \<open>
  \<^verbatim>\<open>pd.DataFrame(rows)\<close> on a list of dicts: the columns are the keys in order of first
  appearance over all dicts, so an empty list gives a table with no column at all.
\<close>

definition DataFrame :: "pydict list \<Rightarrow> dataframe" where
  "DataFrame ds = \<lparr>columns = first_seen [] (concat (map (map fst) ds)), rows = ds\<rparr>"

text \<open>
  The cell of a row under a column label. Every dict of this program carries all five
  keys, so the null that pandas fills in for a key a dict lacks never arises; the model
  reads it as \<^verbatim>\<open>None\<close>.
\<close>

definition cell :: "pydict \<Rightarrow> string \<Rightarrow> pyval" where
  "cell r c = (case map_of r c of Some v \<Rightarrow> v | None \<Rightarrow> PyNone)"

text \<open>\<^verbatim>\<open>df.empty\<close>: no row or no column.\<close>

definition empty :: "dataframe \<Rightarrow> bool" where
  "empty df = (rows df = [] \<or> columns df = [])"

section \<open>Sample Generator\<close>

definition names :: "(string \<times> string \<times> string \<times> string) list" where
  "names =
    [(''Aditi Sharma'', ''aditidesigns'',
      ''Hiring UI/UX designer for a fintech MVP. DM your portfolio!'', ''Bengaluru, India''),
     (''Ravi Patel'', ''brandkraft_ravi'',
      ''Looking for a freelance brand identity designer for a quick turnaround'', ''Ahmedabad, IN''),
     (''UX Careers'', ''ux_careers_daily'',
      ''We are hiring UI/UX Designer (Remote, India). Figma, prototyping, user testing.'', ''Remote''),
     (''TechNest'', ''technest_jobs'',
      ''Product team needs a UI Designer. Mobile-first. 3-month contract.'', ''Pune''),
     (''CreativeHub'', ''creativehub'',
      ''Brand identity designer needed for D2C skincare brand.'', ''Mumbai''),
     (''Sarah Lee'', ''sarahdesigns'',
      ''Hiring UI/UX (Mid-level). SaaS. Apply with case studies.'', ''San Francisco, CA''),
     (''Ankit Gupta'', ''ankit_hires'',
      ''UI/UX freelancer for a marketplace redesign. Weekly sprints.'', ''Gurugram''),
     (''StartUpWave'', ''startup_wave'',
      ''Brand identity + UI kit for a stealth AI startup. Paid, remote.'', ''Remote'')]"

text \<open>The body of the loop: the dict appended for index \<open>i\<close>.\<close>

definition sample_row :: "int \<Rightarrow> pydict" where
  "sample_row i =
     (case names ! nat (i mod int (length names)) of (name, handle, text, loc) \<Rightarrow>
        [(''display_name'', Str name),
         (''handle'', Str (''@'' @ handle)),
         (''text'', Str (text @ '' #'' @ str_int (1000 + i))),
         (''url'', Str (''https://twitter.com/'' @ handle @ ''/status/''
                        @ str_int (1700000000000000000 + i))),
         (''location'', Str loc)])"

definition generate_sample_data :: "int \<Rightarrow> dataframe" where
  "generate_sample_data n =
     DataFrame (foldl (\<lambda>rows i. rows @ [sample_row i]) [] (py_range n))"

section \<open>Query Builder\<close>

definition query :: "string \<Rightarrow> string" where
  "query keywords = keywords @ '' lang:en exclude:retweets exclude:replies''"

section \<open>Region Filter\<close>

text \<open>
  \<^verbatim>\<open>str.strip()\<close> removes the characters Python counts as whitespace; below 256 these are
  the code points 9 to 13, 28 to 32, 133 and 160.
\<close>

definition isspace :: "char \<Rightarrow> bool" where
  "isspace c = (let n = (of_char c :: nat) in
     (9 \<le> n \<and> n \<le> 13) \<or> (28 \<le> n \<and> n \<le> 32) \<or> n = 133 \<or> n = 160)"

definition strip :: "string \<Rightarrow> string" where
  "strip s = rev (dropWhile isspace (rev (dropWhile isspace s)))"

text \<open>
  \<^verbatim>\<open>str.lower()\<close>: below 256 the upper-case letters are A to Z and the code points 192 to
  222 except 215; each has its lower-case form 32 places higher.
\<close>

definition lower_char :: "char \<Rightarrow> char" where
  "lower_char c = (let n = (of_char c :: nat) in
     if (65 \<le> n \<and> n \<le> 90) \<or> (192 \<le> n \<and> n \<le> 222 \<and> n \<noteq> 215)
     then char_of (n + 32) else c)"

definition lower :: "string \<Rightarrow> string" where
  "lower s = map lower_char s"

text \<open>\<^verbatim>\<open>s.split(sep)\<close> for a one-character separator: always at least one piece.\<close>

fun split :: "char \<Rightarrow> string \<Rightarrow> string list" where
  "split sep [] = [[]]"
| "split sep (x # xs) =
     (if x = sep then [] # split sep xs
      else (case split sep xs of [] \<Rightarrow> [[x]] | y # ys \<Rightarrow> (x # y) # ys))"

text \<open>The substring test \<^verbatim>\<open>r in s\<close>.\<close>

fun startswith :: "string \<Rightarrow> string \<Rightarrow> bool" where
  "startswith s [] = True"
| "startswith [] (p # ps) = False"
| "startswith (x # xs) (p # ps) = (x = p \<and> startswith xs ps)"

fun contains :: "string \<Rightarrow> string \<Rightarrow> bool" where
  "contains [] r = (r = [])"
| "contains (x # xs) r = (startswith (x # xs) r \<or> contains xs r)"

text \<open>\<^verbatim>\<open>df[label]\<close>: the column as a sequence of cells; a label the table lacks raises.\<close>

definition getitem :: "dataframe \<Rightarrow> string \<Rightarrow> exception + pyval list" where
  "getitem df label =
     (if label \<in> set (columns df) then Inr (map (\<lambda>r. cell r label) (rows df))
      else Inl (Exception ''KeyError''))"

text \<open>\<^verbatim>\<open>df[mask]\<close> with a boolean sequence: the rows whose mask entry is true, columns kept.\<close>

definition select :: "dataframe \<Rightarrow> bool list \<Rightarrow> dataframe" where
  "select df flags = df\<lparr>rows := map fst (filter snd (zip (rows df) flags))\<rparr>"

text \<open>
  The inner function \<^verbatim>\<open>matches\<close>, with the token list it closes over. After
  \<^verbatim>\<open>loc or ""\<close> the value is a string, so the \<^verbatim>\<open>None\<close> branch is never taken.
\<close>

definition matches :: "string list \<Rightarrow> pyval \<Rightarrow> bool" where
  "matches regions loc =
     (case py_or loc (Str []) of
        Str s \<Rightarrow> (let loc_l = lower s in list_ex (\<lambda>r. contains loc_l r) regions)
      | PyNone \<Rightarrow> False)"

definition apply_region_filter :: "dataframe \<Rightarrow> string \<Rightarrow> exception + dataframe" where
  "apply_region_filter df region_input =
     (if strip region_input = [] then Inr df
      else
        let regions = map (\<lambda>r. lower (strip r))
                        (filter (\<lambda>r. strip r \<noteq> []) (split (CHR '','') region_input))
        in if regions = [] then Inr df
           else (case getitem df ''location'' of
                   Inl e \<Rightarrow> Inl e
                 | Inr col \<Rightarrow> Inr (select df (map (matches regions) col))))"

text \<open>
  The token set in the words of the specification: split on commas, trim each piece,
  discard the empty ones, lower-case.
\<close>

definition tokens :: "string \<Rightarrow> string list" where
  "tokens s = map lower (filter (\<lambda>t. t \<noteq> []) (map strip (split (CHR '','') s)))"

text \<open>The location of a row as the filter reads it: \<^verbatim>\<open>None\<close> counts as the empty string.\<close>

definition location_of :: "pydict \<Rightarrow> string" where
  "location_of r = (case cell r ''location'' of Str s \<Rightarrow> s | PyNone \<Rightarrow> [])"

text \<open>
  The table of the specification's filter example: four records whose locations are
  \<open>Bengaluru, India\<close>, \<open>Remote\<close>, \<open>San Francisco, CA\<close> and the empty string.
\<close>

definition region_example :: dataframe where
  "region_example =
     DataFrame (map (\<lambda>loc. [(''display_name'', Str ''A''), (''handle'', Str ''@a''),
                              (''text'', Str ''hiring''), (''url'', Str ''https://twitter.com/a''),
                              (''location'', Str loc)])
                    [''Bengaluru, India'', ''Remote'', ''San Francisco, CA'', ''''])"

section \<open>Fetcher\<close>

text \<open>
  The external search library is the environment of the Fetcher. An attribute of an
  external object is absent or present, and a present one holds \<^verbatim>\<open>None\<close> or a string.
\<close>

datatype 'a attr = Absent | Present 'a

text \<open>\<^verbatim>\<open>getattr(obj, name, default)\<close> on an attribute slot.\<close>

definition getattr :: "'a attr \<Rightarrow> 'a \<Rightarrow> 'a" where
  "getattr a d = (case a of Absent \<Rightarrow> d | Present v \<Rightarrow> v)"

record user =
  user_username :: "pyval attr"
  user_displayname :: "pyval attr"
  user_location :: "pyval attr"

text \<open>The \<^verbatim>\<open>user\<close> of a tweet may itself be \<^verbatim>\<open>None\<close>, which has none of the attributes.\<close>

record tweet =
  tweet_user :: "user option attr"
  tweet_content :: "pyval attr"
  tweet_rawContent :: "pyval attr"
  tweet_url :: "pyval attr"

definition user_attr :: "user option \<Rightarrow> (user \<Rightarrow> pyval attr) \<Rightarrow> pyval attr" where
  "user_attr u field = (case u of None \<Rightarrow> Absent | Some obj \<Rightarrow> field obj)"

text \<open>
  One call of the generator's \<^verbatim>\<open>__next__\<close>: an item, the end of the results, or an
  exception. The generator is the function from the number of items already pulled to
  the outcome of the next pull; the module maps a query to its generator, or raises.
\<close>

datatype 'a pull = Yield 'a | StopIteration | Raise exception

type_synonym items = "nat \<Rightarrow> tweet pull"

type_synonym twitter_module = "string \<Rightarrow> exception + items"

text \<open>\<^verbatim>\<open>_get_snscrape()\<close>: the module, or \<^verbatim>\<open>None\<close> when the import raises.\<close>

definition get_snscrape :: "exception + twitter_module \<Rightarrow> twitter_module option" where
  "get_snscrape import_module = (case import_module of Inl e \<Rightarrow> None | Inr m \<Rightarrow> Some m)"

text \<open>
  The body of the loop: the dict appended for one tweet. Reading \<^verbatim>\<open>tweet.user\<close> raises
  when the tweet has no such attribute.
\<close>

definition tweet_row :: "tweet \<Rightarrow> exception + pydict" where
  "tweet_row tweet =
     (case tweet_user tweet of
        Absent \<Rightarrow> Inl (Exception ''AttributeError'')
      | Present u \<Rightarrow>
          (let handle = py_or (getattr (user_attr u user_username) PyNone) (Str []);
               display_name = py_or (getattr (user_attr u user_displayname) PyNone) handle;
               location = py_or (getattr (user_attr u user_location) PyNone) (Str []);
               text = py_or (getattr (tweet_content tweet) PyNone)
                            (getattr (tweet_rawContent tweet) (Str []));
               url = py_or (getattr (tweet_url tweet) PyNone)
                           (Str (''https://twitter.com/'' @ format handle))
           in Inr [(''display_name'', display_name),
                   (''handle'', if truthy handle then Str (''@'' @ format handle) else Str []),
                   (''text'', text),
                   (''url'', url),
                   (''location'', py_or location (Str []))]))"

text \<open>
  The \<^verbatim>\<open>for\<close> loop over \<^verbatim>\<open>enumerate(...get_items())\<close>: item \<open>i\<close> is pulled first, then
  \<open>i \<ge> limit\<close> is tested, so the loop pulls one item more than it keeps.
\<close>

function items_loop :: "items \<Rightarrow> int \<Rightarrow> nat \<Rightarrow> pydict list \<Rightarrow> exception + pydict list" where
  "items_loop get_items limit i collected =
     (case get_items i of
        StopIteration \<Rightarrow> Inr collected
      | Raise e \<Rightarrow> Inl e
      | Yield tweet \<Rightarrow>
          if int i \<ge> limit then Inr collected
          else (case tweet_row tweet of
                  Inl e \<Rightarrow> Inl e
                | Inr row \<Rightarrow> items_loop get_items limit (Suc i) (collected @ [row])))"
  by pat_completeness auto
termination
  by (relation "measure (\<lambda>(get_items, limit, i, collected). nat (limit - int i))") auto

declare items_loop.simps [simp del]

text \<open>The \<^verbatim>\<open>try\<close> block: open the search, then run the loop from an empty list.\<close>

definition try_block :: "twitter_module \<Rightarrow> string \<Rightarrow> int \<Rightarrow> exception + pydict list" where
  "try_block sntwitter q limit =
     (case sntwitter q of Inl e \<Rightarrow> Inl e | Inr get_items \<Rightarrow> items_loop get_items limit 0 [])"

datatype notice = Info string | Warning string

text \<open>
  \<^verbatim>\<open>scrape_tweets\<close>, given the outcome of the import: the notices shown and the table
  returned, or the exception that leaves the function.
\<close>

definition scrape_tweets ::
  "exception + twitter_module \<Rightarrow> string \<Rightarrow> int \<Rightarrow> exception + notice list \<times> dataframe" where
  "scrape_tweets import_module q limit =
     (case get_snscrape import_module of
        None \<Rightarrow>
          Inr ([Info (''snscrape is not installed. Showing sample data. ''
                      @ ''Install dependencies to enable live scraping.'')],
               generate_sample_data limit)
      | Some sntwitter \<Rightarrow>
          (case try_block sntwitter q limit of
             Inl (Exception name) \<Rightarrow>
               Inr ([Warning (''Live scraping failed ('' @ name
                              @ ''). Showing sample data instead.'')],
                    generate_sample_data limit)
           | Inr collected \<Rightarrow>
               (let df = DataFrame collected
                in if empty df
                   then Inr ([Info ''No live results returned. Showing sample data.''],
                             generate_sample_data limit)
                   else Inr ([], df))))"

text \<open>A generator that yields the tweets of a list and then ends.\<close>

definition items_of :: "tweet pull list \<Rightarrow> items" where
  "items_of ps i = (if i < length ps then ps ! i else StopIteration)"

section \<open>Record invariants and test inputs\<close>

text \<open>The five column labels of a Record table.\<close>

definition keys :: "string list" where
  "keys = [''display_name'', ''handle'', ''text'', ''url'', ''location'']"

definition is_str :: "pyval \<Rightarrow> bool" where
  "is_str v = (case v of Str s \<Rightarrow> True | PyNone \<Rightarrow> False)"

text \<open>A string that begins with \<open>@\<close> exactly once: its second character, if any, is not \<open>@\<close>.\<close>

definition at_once :: "string \<Rightarrow> bool" where
  "at_once h = (case h of [] \<Rightarrow> False
                | c # cs \<Rightarrow> c = CHR ''@'' \<and> (case cs of [] \<Rightarrow> True | d # ds \<Rightarrow> d \<noteq> CHR ''@''))"

definition handle_invariant :: "pydict \<Rightarrow> bool" where
  "handle_invariant r =
     (case cell r ''handle'' of Str h \<Rightarrow> h = [] \<or> at_once h | PyNone \<Rightarrow> False)"

text \<open>
  A tweet as the library delivers it: an author with the given user name, no declared
  location, the body under \<^verbatim>\<open>rawContent\<close> only.
\<close>

definition plain_tweet :: "string \<Rightarrow> tweet" where
  "plain_tweet u =
     \<lparr>tweet_user = Present (Some \<lparr>user_username = Present (Str u),
                                  user_displayname = Present (Str ''Bob''),
                                  user_location = Present PyNone\<rparr>),
      tweet_content = Absent,
      tweet_rawContent = Present (Str ''hiring''),
      tweet_url = Present (Str ''https://twitter.com/x/status/1'')\<rparr>"

text \<open>The row \<^verbatim>\<open>scrape_tweets\<close> builds from \<open>plain_tweet u\<close> for a non-empty \<open>u\<close>.\<close>

definition plain_row :: "string \<Rightarrow> pydict" where
  "plain_row u =
     [(''display_name'', Str ''Bob''), (''handle'', Str (''@'' @ u)), (''text'', Str ''hiring''),
      (''url'', Str ''https://twitter.com/x/status/1''), (''location'', Str [])]"

text \<open>Modules whose search yields the listed pulls, whatever the query.\<close>

definition module_of :: "tweet pull list \<Rightarrow> twitter_module" where
  "module_of ps q = Inr (items_of ps)"

definition raising_module :: twitter_module where
  "raising_module =
     module_of [Yield (plain_tweet ''bob''), Raise (Exception ''ScraperException'')]"

definition short_module :: twitter_module where
  "short_module = module_of [Yield (plain_tweet ''bob''), Yield (plain_tweet ''amy'')]"

definition at_module :: twitter_module where
  "at_module = module_of [Yield (plain_tweet ''@bob'')]"

section \<open>CSV export\<close>

text \<open>
  \<^verbatim>\<open>df.to_csv(index=False)\<close>: the column labels as the header row, then one row per
  record with its cells in column order, written by Python's \<^verbatim>\<open>csv\<close> writer with minimal
  quoting: a field is quoted when it holds a comma, a quote or a line break, and a quote
  inside it is doubled. A null cell is written as the empty field. Each row ends with the
  line terminator, here the newline character.
\<close>

definition csv_text :: "pyval \<Rightarrow> string" where
  "csv_text v = (case v of PyNone \<Rightarrow> [] | Str s \<Rightarrow> s)"

fun join :: "string \<Rightarrow> string list \<Rightarrow> string" where
  "join sep [] = []"
| "join sep [x] = x"
| "join sep (x # y # ys) = x @ sep @ join sep (y # ys)"

definition special :: "char \<Rightarrow> bool" where
  "special c = (c = CHR '','' \<or> c = CHR 0x22 \<or> c = CHR 0x0A \<or> c = CHR 0x0D)"

definition quote_field :: "string \<Rightarrow> string" where
  "quote_field f =
     (if list_ex special f
      then CHR 0x22 # concat (map (\<lambda>c. if c = CHR 0x22 then [c, c] else [c]) f) @ [CHR 0x22]
      else f)"

text \<open>
  The text of a row before its line terminator: a row of one empty field is written as
  a pair of quotes, any other row field by field with commas between.
\<close>

definition row_text :: "string list \<Rightarrow> string" where
  "row_text fs = (if fs = [[]] then [CHR 0x22, CHR 0x22] else join '','' (map quote_field fs))"

definition writerow :: "string list \<Rightarrow> string" where
  "writerow fs = row_text fs @ [CHR 0x0A]"

definition to_csv :: "dataframe \<Rightarrow> string" where
  "to_csv df =
     writerow (columns df)
     @ concat (map (\<lambda>r. writerow (map (\<lambda>c. csv_text (cell r c)) (columns df))) (rows df))"

text \<open>
  The lines of a text: the pieces between newline characters, a final newline ending the
  last line.
\<close>

definition splitlines :: "string \<Rightarrow> string list" where
  "splitlines s =
     (if s = [] then []
      else let ps = split (CHR 0x0A) s in if last ps = [] then butlast ps else ps)"

section \<open>Aggregator\<close>

text \<open>\<^verbatim>\<open>Series.fillna(value)\<close> and \<^verbatim>\<open>Series.replace(old, new)\<close>: new sequences.\<close>

definition fillna :: "string \<Rightarrow> pyval list \<Rightarrow> pyval list" where
  "fillna v col = map (\<lambda>x. case x of PyNone \<Rightarrow> Str v | Str s \<Rightarrow> Str s) col"

definition replace :: "string \<Rightarrow> string \<Rightarrow> pyval list \<Rightarrow> pyval list" where
  "replace old new col = map (\<lambda>x. if x = Str old then Str new else x) col"

text \<open>Storing a value under a key of a dict: in place of the old value, or at the end.\<close>

fun dict_set :: "pydict \<Rightarrow> string \<Rightarrow> pyval \<Rightarrow> pydict" where
  "dict_set [] k v = [(k, v)]"
| "dict_set ((k', v') # d) k v = (if k' = k then (k, v) # d else (k', v') # dict_set d k v)"

text \<open>The table \<^verbatim>\<open>df.assign(label=col)\<close> builds: the column replaced, or added last.\<close>

definition set_column :: "dataframe \<Rightarrow> string \<Rightarrow> pyval list \<Rightarrow> dataframe" where
  "set_column df label col =
     \<lparr>columns = (if label \<in> set (columns df) then columns df else columns df @ [label]),
      rows = map (\<lambda>(r, v). dict_set r label v) (zip (rows df) col)\<rparr>"

text \<open>
  \<^verbatim>\<open>df.groupby(label, as_index=False).size()\<close>: one entry per distinct key with the number
  of its rows. The defaults apply: rows with a null key are dropped and the group keys
  are sorted, strings in code-point order.
\<close>

definition groupby_size :: "dataframe \<Rightarrow> string \<Rightarrow> exception + (string \<times> nat) list" where
  "groupby_size df label =
     (case getitem df label of
        Inl e \<Rightarrow> Inl e
      | Inr col \<Rightarrow>
          (let ks = concat (map (\<lambda>x. case x of PyNone \<Rightarrow> [] | Str s \<Rightarrow> [s]) col)
           in Inr (map (\<lambda>k. (k, count_list ks k)) (sort (remdups ks)))))"

text \<open>
  \<^verbatim>\<open>sort_values("size", ascending=False)\<close>: pandas reverses the column, takes the sorting
  permutation and reverses it again. The default sorting kind promises no order among
  equal keys; the sort is taken to be stable, as the specification takes it, so rows of
  equal size keep their order.
\<close>

definition sort_values :: "(string \<times> nat) list \<Rightarrow> (string \<times> nat) list" where
  "sort_values sizes = rev (sort_key snd (rev sizes))"

definition head :: "nat \<Rightarrow> 'a list \<Rightarrow> 'a list" where
  "head n xs = take n xs"

text \<open>The chain after \<^verbatim>\<open>assign\<close>: group, count, sort by count, keep the first 15.\<close>

definition ranked :: "dataframe \<Rightarrow> exception + (string \<times> nat) list" where
  "ranked df =
     (case groupby_size df ''location'' of
        Inl e \<Rightarrow> Inl e
      | Inr sizes \<Rightarrow> Inr (head 15 (sort_values sizes)))"


text \<open>The label a row is counted under.\<close>

definition label_of :: "pydict \<Rightarrow> string" where
  "label_of r = (if location_of r = [] then ''Unknown'' else location_of r)"

text \<open>The table of the specification's aggregation example.\<close>

definition aggregator_example :: dataframe where
  "aggregator_example =
     DataFrame (map (\<lambda>loc. [(''display_name'', Str ''A''), (''handle'', Str ''@a''),
                              (''text'', Str ''hiring''), (''url'', Str ''https://twitter.com/a''),
                              (''location'', Str loc)])
                    [''Mumbai'', ''Mumbai'', '''', ''Pune''])"


section \<open>The page script\<close>

text \<open>
  Tables are objects: the script's variables hold references into a store of tables, and
  a pandas call that returns a new table allocates a new object. \<^verbatim>\<open>assign\<close> is such a
  call; no statement of the script writes into an existing table.
\<close>

type_synonym store = "dataframe list"

definition alloc :: "store \<Rightarrow> dataframe \<Rightarrow> store \<times> nat" where
  "alloc st df = (st @ [df], length st)"

definition assign :: "store \<Rightarrow> nat \<Rightarrow> string \<Rightarrow> pyval list \<Rightarrow> store \<times> nat" where
  "assign st a label col = alloc st (set_column (st ! a) label col)"

datatype chart = NoData | Chart "(string \<times> nat) list" | Skipped

text \<open>
  The chart section, lines 159 to 181, for the table at reference \<open>a\<close>; \<open>altair\<close> tells
  whether the chart library can be imported.
\<close>

definition charts :: "bool \<Rightarrow> store \<Rightarrow> nat \<Rightarrow> exception + store \<times> chart" where
  "charts altair st a =
     (if empty (st ! a) then Inr (st, NoData)
      else (case getitem (st ! a) ''location'' of
              Inl e \<Rightarrow> Inl e
            | Inr col \<Rightarrow>
                (case assign st a ''location'' (replace [] ''Unknown'' (fillna [] col)) of
                   (st1, b) \<Rightarrow>
                     (case ranked (st1 ! b) of
                        Inl e \<Rightarrow> Inl e
                      | Inr counts \<Rightarrow> Inr (st1, if altair then Chart counts else Skipped)))))"

text \<open>The feed: nothing for an empty table, else the five arguments of each card.\<close>

definition feed ::
  "dataframe \<Rightarrow> exception + (pyval \<times> pyval \<times> pyval \<times> pyval \<times> pyval) list option" where
  "feed df =
     (if empty df then Inr None
      else if set keys \<subseteq> set (columns df)
        then Inr (Some (map (\<lambda>r. (cell r ''display_name'', cell r ''handle'', cell r ''text'',
                                    cell r ''url'', cell r ''location'')) (rows df)))
        else Inl (Exception ''KeyError''))"

record page =
  page_query :: string
  page_notices :: "notice list"
  page_showing :: nat
  page_of :: nat
  page_csv :: string
  page_chart :: chart
  page_feed :: "(pyval \<times> pyval \<times> pyval \<times> pyval \<times> pyval) list option"

text \<open>
  The script from line 137 on, for the values of the four sidebar controls and the two
  optional libraries. The fetched table is stored at reference 0 and the filtered one at
  reference 1.
\<close>

definition fetch ::
  "bool \<Rightarrow> exception + twitter_module \<Rightarrow> string \<Rightarrow> int \<Rightarrow> exception + notice list \<times> dataframe" where
  "fetch live import_module q max_tweets =
     (if live then scrape_tweets import_module q max_tweets
      else Inr ([], generate_sample_data max_tweets))"

definition script ::
  "string \<Rightarrow> int \<Rightarrow> string \<Rightarrow> bool \<Rightarrow> exception + twitter_module \<Rightarrow> bool \<Rightarrow> exception + page" where
  "script keywords max_tweets region live import_module altair =
     (case fetch live import_module (query keywords) max_tweets of
        Inl e \<Rightarrow> Inl e
      | Inr (ns, df) \<Rightarrow>
          (case apply_region_filter df region of
             Inl e \<Rightarrow> Inl e
           | Inr df_filtered \<Rightarrow>
               (let st = [df, df_filtered];
                    csv = to_csv (st ! 1)
                in case charts altair st 1 of
                     Inl e \<Rightarrow> Inl e
                   | Inr (st', ch) \<Rightarrow>
                       (case feed (st' ! 1) of
                          Inl e \<Rightarrow> Inl e
                        | Inr cards \<Rightarrow>
                            Inr \<lparr>page_query = query keywords, page_notices = ns,
                                 page_showing = length (rows (st ! 1)),
                                 page_of = length (rows (st ! 0)),
                                 page_csv = csv, page_chart = ch, page_feed = cards\<rparr>))))"

section \<open>Properties of the Sample Generator\<close>

lemma foldl_append_map: "foldl (\<lambda>acc i. acc @ [f i]) acc xs = acc @ map f xs"
  by (induction xs arbitrary: acc) simp_all

lemma rows_generate_sample_data:
  "rows (generate_sample_data n) = map sample_row (py_range n)"
  by (simp add: generate_sample_data_def DataFrame_def foldl_append_map)

lemma length_py_range: "length (py_range n) = nat n"
  by (simp add: py_range_def)

lemma nth_py_range: "0 \<le> i \<Longrightarrow> i < n \<Longrightarrow> py_range n ! nat i = i"
  by (simp add: py_range_def)

lemma length_names: "length names = 8"
  by (simp add: names_def)

text \<open>
  Claim C4. The Sample Generator returns exactly \<open>n\<close> records for \<open>n \<ge> 0\<close> (none for
  \<open>n = 0\<close>); record \<open>i\<close> is built from the catalog template at position \<open>i mod 8\<close>: its
  text is the template text followed by \<open>" #"\<close> and the number \<open>1000 + i\<close>, its url is
  \<open>"https://twitter.com/"\<close>, the template handle, \<open>"/status/"\<close> and the number
  \<open>1700000000000000000 + i\<close>, and its handle is \<open>"@"\<close> followed by the template handle.
  The generator is a function of \<open>n\<close> alone: it takes no state and no environment, so two
  calls with the same \<open>n\<close> are the same value.
\<close>

theorem generate_sample_data_records:
  "length names = 8 \<and>
   rows (generate_sample_data 0) = [] \<and>
   (0 \<le> n \<longrightarrow> int (length (rows (generate_sample_data n))) = n) \<and>
   (\<forall>i. 0 \<le> i \<and> i < n \<longrightarrow>
      rows (generate_sample_data n) ! nat i =
        (case names ! nat (i mod 8) of (name, handle, text, loc) \<Rightarrow>
           [(''display_name'', Str name),
            (''handle'', Str (''@'' @ handle)),
            (''text'', Str (text @ '' #'' @ str_int (1000 + i))),
            (''url'', Str (''https://twitter.com/'' @ handle @ ''/status/''
                           @ str_int (1700000000000000000 + i))),
            (''location'', Str loc)]))"
proof (intro conjI allI impI)
  show "length names = 8" by (rule length_names)
  show "rows (generate_sample_data 0) = []"
    by (simp add: rows_generate_sample_data py_range_def)
  show "int (length (rows (generate_sample_data n))) = n" if "0 \<le> n"
    using that by (simp add: rows_generate_sample_data length_py_range)
next
  fix i assume i: "0 \<le> i \<and> i < n"
  have "nat i < length (py_range n)"
    using i by (simp add: length_py_range)
  then have "rows (generate_sample_data n) ! nat i = sample_row (py_range n ! nat i)"
    by (simp add: rows_generate_sample_data)
  also have "\<dots> = sample_row i"
    using i by (simp add: nth_py_range)
  finally show "rows (generate_sample_data n) ! nat i =
        (case names ! nat (i mod 8) of (name, handle, text, loc) \<Rightarrow>
           [(''display_name'', Str name),
            (''handle'', Str (''@'' @ handle)),
            (''text'', Str (text @ '' #'' @ str_int (1000 + i))),
            (''url'', Str (''https://twitter.com/'' @ handle @ ''/status/''
                           @ str_int (1700000000000000000 + i))),
            (''location'', Str loc)])"
    by (simp add: sample_row_def length_names)
qed

lemma str_int_1009: "str_int 1009 = ''1009''"
  by (simp add: str_int_def str_nat.simps digit_def)

lemma str_nat_status_9: "str_nat 1700000000000000009 = ''1700000000000000009''"
  by (simp add: str_nat.simps digit_def)

lemma str_int_status_9: "str_int 1700000000000000009 = ''1700000000000000009''"
  unfolding str_int_def using str_nat_status_9 by simp

theorem generate_sample_data_records_witness:
  "(0::int) \<le> 10 \<and> int (length (rows (generate_sample_data 10))) = 10 \<and>
   (0::int) \<le> 9 \<and> (9::int) < 10 \<and>
   rows (generate_sample_data 10) ! nat 9 =
     [(''display_name'', Str ''Ravi Patel''),
      (''handle'', Str ''@brandkraft_ravi''),
      (''text'', Str ''Looking for a freelance brand identity designer for a quick turnaround #1009''),
      (''url'', Str ''https://twitter.com/brandkraft_ravi/status/1700000000000000009''),
      (''location'', Str ''Ahmedabad, IN'')]"
proof -
  note inst = generate_sample_data_records [of 10]
  have len: "int (length (rows (generate_sample_data 10))) = 10"
    using inst [THEN conjunct2, THEN conjunct2, THEN conjunct1] by simp
  have "rows (generate_sample_data 10) ! nat 9 =
        (case names ! nat (9 mod 8) of (name, handle, text, loc) \<Rightarrow>
           [(''display_name'', Str name),
            (''handle'', Str (''@'' @ handle)),
            (''text'', Str (text @ '' #'' @ str_int (1000 + 9))),
            (''url'', Str (''https://twitter.com/'' @ handle @ ''/status/''
                           @ str_int (1700000000000000000 + 9))),
            (''location'', Str loc)])"
    using inst [THEN conjunct2, THEN conjunct2, THEN conjunct2, THEN spec, of 9] by simp
  then have "rows (generate_sample_data 10) ! nat 9 =
     [(''display_name'', Str ''Ravi Patel''),
      (''handle'', Str ''@brandkraft_ravi''),
      (''text'', Str ''Looking for a freelance brand identity designer for a quick turnaround #1009''),
      (''url'', Str ''https://twitter.com/brandkraft_ravi/status/1700000000000000009''),
      (''location'', Str ''Ahmedabad, IN'')]"
    by (simp add: names_def str_int_1009 str_int_status_9)
  with len show ?thesis by simp
qed

text \<open>
  Claim C8. The query is the keyword expression, verbatim, followed by a space,
  \<open>lang:en\<close>, a space, \<open>exclude:retweets\<close>, a space and \<open>exclude:replies\<close>; the quoted
  keyword \<open>"ui designer"\<close> gives \<open>"ui designer" lang:en exclude:retweets exclude:replies\<close>.
\<close>

theorem query_format:
  "query k = k @ '' '' @ ''lang:en'' @ '' '' @ ''exclude:retweets'' @ '' '' @ ''exclude:replies'' \<and>
   take (length k) (query k) = k \<and>
   query (CHR 0x22 # ''ui designer'' @ [CHR 0x22]) =
     CHR 0x22 # ''ui designer'' @ CHR 0x22 # '' lang:en exclude:retweets exclude:replies''"
  by (simp add: query_def)

section \<open>Properties of the Region Filter\<close>

lemma startswith_iff: "startswith s r \<longleftrightarrow> (\<exists>ss. s = r @ ss)"
  by (induction s r rule: startswith.induct) auto

lemma contains_iff: "contains s r \<longleftrightarrow> (\<exists>ps ss. s = ps @ r @ ss)"
proof (induction s)
  case Nil
  then show ?case by auto
next
  case (Cons x xs)
  show ?case
  proof
    assume "contains (x # xs) r"
    then consider "startswith (x # xs) r" | "contains xs r" by auto
    then show "\<exists>ps ss. x # xs = ps @ r @ ss"
    proof cases
      case 1
      then obtain ss where "x # xs = r @ ss" by (auto simp: startswith_iff)
      then have "x # xs = [] @ r @ ss" by simp
      then show ?thesis by blast
    next
      case 2
      then obtain ps ss where "xs = ps @ r @ ss" using Cons.IH by auto
      then have "x # xs = (x # ps) @ r @ ss" by simp
      then show ?thesis by blast
    qed
  next
    assume "\<exists>ps ss. x # xs = ps @ r @ ss"
    then obtain ps ss where e: "x # xs = ps @ r @ ss" by auto
    show "contains (x # xs) r"
    proof (cases ps)
      case Nil
      with e have "startswith (x # xs) r" by (auto simp: startswith_iff)
      then show ?thesis by simp
    next
      case (Cons p ps')
      with e have "xs = ps' @ r @ ss" by simp
      then have "contains xs r" using Cons.IH by blast
      then show ?thesis by simp
    qed
  qed
qed

lemma lower_Nil_iff: "lower s = [] \<longleftrightarrow> s = []"
  by (simp add: lower_def)

lemma regions_tokens:
  "map (\<lambda>r. lower (strip r)) (filter (\<lambda>r. strip r \<noteq> []) xs) =
   map lower (filter (\<lambda>t. t \<noteq> []) (map strip xs))"
  by (induction xs) simp_all

lemma all_dropWhile: "(\<forall>x \<in> set (dropWhile P s). P x) \<longleftrightarrow> (\<forall>x \<in> set s. P x)"
  by (induction s) auto

lemma strip_Nil_iff: "strip s = [] \<longleftrightarrow> (\<forall>c \<in> set s. isspace c)"
  by (simp add: strip_def dropWhile_eq_Nil_conv all_dropWhile)

lemma set_split_all: "\<forall>p \<in> set (split sep s). set p \<subseteq> set s"
  by (induction s) (auto split: list.splits)

lemma tokens_whitespace: "strip s = [] \<Longrightarrow> tokens s = []"
proof -
  assume "strip s = []"
  then have ws: "\<forall>c \<in> set s. isspace c" by (simp add: strip_Nil_iff)
  have "strip p = []" if "p \<in> set (split (CHR '','') s)" for p
  proof -
    from that have "set p \<subseteq> set s" using set_split_all by blast
    with ws show ?thesis by (auto simp: strip_Nil_iff)
  qed
  then have "filter (\<lambda>t. t \<noteq> []) (map strip (split (CHR '','') s)) = []"
    by (auto simp: filter_empty_conv)
  then show ?thesis by (simp add: tokens_def)
qed

lemma select_map: "map fst (filter snd (zip xs (map g xs))) = filter g xs"
  by (induction xs) simp_all

lemma matches_cell:
  "matches regions (cell r ''location'') =
     (\<exists>t \<in> set regions. contains (lower (location_of r)) t)"
  by (cases "cell r ''location''")
     (auto simp: matches_def py_or_def location_of_def list_ex_iff Let_def)

lemma tokens_nonempty: "t \<in> set (tokens s) \<Longrightarrow> t \<noteq> []"
  by (auto simp: tokens_def lower_Nil_iff)

lemma apply_region_filter_tokens:
  "apply_region_filter df s =
     (if tokens s = [] then Inr df
      else if ''location'' \<in> set (columns df)
        then Inr (df\<lparr>rows := filter (\<lambda>r. \<exists>t \<in> set (tokens s).
                                  contains (lower (location_of r)) t) (rows df)\<rparr>)
        else Inl (Exception ''KeyError''))"
proof (cases "strip s = []")
  case True
  then show ?thesis by (simp add: apply_region_filter_def tokens_whitespace)
next
  case False
  have reg: "map (\<lambda>r. lower (strip r))
               (filter (\<lambda>r. strip r \<noteq> []) (split (CHR '','') s)) = tokens s"
    by (simp add: regions_tokens tokens_def)
  have m: "matches (tokens s) \<circ> (\<lambda>r. cell r ''location'')
            = (\<lambda>r. \<exists>t \<in> set (tokens s). contains (lower (location_of r)) t)"
    by (rule ext) (simp add: matches_cell)
  show ?thesis
    using False
    by (simp add: apply_region_filter_def reg Let_def getitem_def select_def select_map m)
qed

lemma tokens_example: "tokens ''india, remote'' = [''india'', ''remote'']"
  by code_simp

lemma tokens_blank: "strip ''  '' = [] \<and> tokens ''  '' = []"
  by code_simp

lemma columns_region_example:
  "columns region_example = [''display_name'', ''handle'', ''text'', ''url'', ''location'']"
  by code_simp

lemma region_example_filtered:
  "apply_region_filter region_example ''india, remote'' =
     Inr (region_example\<lparr>rows := take 2 (rows region_example)\<rparr>)"
  by code_simp

text \<open>
  Claim C3. The tokens of a filter string are its comma-separated pieces, trimmed, the
  empty ones discarded, lower-cased (the list the code builds is that list). When there
  is no token, in particular when the string is empty or all whitespace, the filter
  returns the table unchanged. Otherwise, on a table that has the location column, it
  returns the rows, in their order, whose lower-cased location has some token as a
  substring; no row with an empty location is among them. The filter
  \<open>india, remote\<close> on the locations \<open>Bengaluru, India\<close>, \<open>Remote\<close>,
  \<open>San Francisco, CA\<close> and the empty string keeps exactly the first two rows.
\<close>

theorem apply_region_filter_spec:
  "map (\<lambda>r. lower (strip r)) (filter (\<lambda>r. strip r \<noteq> []) (split (CHR '','') s)) = tokens s \<and>
   (strip s = [] \<longrightarrow> tokens s = []) \<and>
   (tokens s = [] \<longrightarrow> apply_region_filter df s = Inr df) \<and>
   (tokens s \<noteq> [] \<and> ''location'' \<in> set (columns df) \<longrightarrow>
      apply_region_filter df s =
        Inr (df\<lparr>rows := filter (\<lambda>r. \<exists>t \<in> set (tokens s).
                                \<exists>ps ss. lower (location_of r) = ps @ t @ ss) (rows df)\<rparr>) \<and>
      (\<forall>r. location_of r = [] \<longrightarrow>
         \<not> (\<exists>t \<in> set (tokens s). \<exists>ps ss. lower (location_of r) = ps @ t @ ss))) \<and>
   apply_region_filter region_example ''india, remote'' =
     Inr (region_example\<lparr>rows := take 2 (rows region_example)\<rparr>)"
proof (intro conjI impI allI)
  show "map (\<lambda>r. lower (strip r)) (filter (\<lambda>r. strip r \<noteq> []) (split (CHR '','') s)) = tokens s"
    by (simp add: regions_tokens tokens_def)
  show "tokens s = []" if "strip s = []"
    using that by (rule tokens_whitespace)
  show "apply_region_filter df s = Inr df" if "tokens s = []"
    using that by (simp add: apply_region_filter_tokens)
  show "apply_region_filter region_example ''india, remote'' =
     Inr (region_example\<lparr>rows := take 2 (rows region_example)\<rparr>)"
    by (rule region_example_filtered)
next
  assume h: "tokens s \<noteq> [] \<and> ''location'' \<in> set (columns df)"
  then show "apply_region_filter df s =
        Inr (df\<lparr>rows := filter (\<lambda>r. \<exists>t \<in> set (tokens s).
                                \<exists>ps ss. lower (location_of r) = ps @ t @ ss) (rows df)\<rparr>)"
    by (simp add: apply_region_filter_tokens contains_iff)
next
  fix r
  assume "tokens s \<noteq> [] \<and> ''location'' \<in> set (columns df)" and e: "location_of r = []"
  show "\<not> (\<exists>t \<in> set (tokens s). \<exists>ps ss. lower (location_of r) = ps @ t @ ss)"
  proof
    assume "\<exists>t \<in> set (tokens s). \<exists>ps ss. lower (location_of r) = ps @ t @ ss"
    then obtain t ps ss where t: "t \<in> set (tokens s)" and "lower (location_of r) = ps @ t @ ss"
      by blast
    with e have "t = []" by (simp add: lower_def)
    with tokens_nonempty [OF t] show False by simp
  qed
qed

theorem apply_region_filter_spec_witness:
  "strip ''  '' = [] \<and> tokens ''  '' = [] \<and>
   apply_region_filter region_example ''  '' = Inr region_example \<and>
   tokens ''india, remote'' \<noteq> [] \<and> ''location'' \<in> set (columns region_example) \<and>
   apply_region_filter region_example ''india, remote'' =
     Inr (region_example\<lparr>rows := filter (\<lambda>r. \<exists>t \<in> set (tokens ''india, remote'').
             \<exists>ps ss. lower (location_of r) = ps @ t @ ss) (rows region_example)\<rparr>)"
proof -
  have a: "tokens ''india, remote'' \<noteq> [] \<and> ''location'' \<in> set (columns region_example)"
    by (simp add: tokens_example columns_region_example)
  have b: "tokens ''  '' = []"
    using tokens_blank by simp
  note blank = apply_region_filter_spec [of "''  ''" region_example]
  note india = apply_region_filter_spec [of "''india, remote''" region_example]
  from blank b have "apply_region_filter region_example ''  '' = Inr region_example"
    by blast
  moreover from india a have "apply_region_filter region_example ''india, remote'' =
     Inr (region_example\<lparr>rows := filter (\<lambda>r. \<exists>t \<in> set (tokens ''india, remote'').
             \<exists>ps ss. lower (location_of r) = ps @ t @ ss) (rows region_example)\<rparr>)"
    by blast
  ultimately show ?thesis
    using a b tokens_blank by simp
qed

section \<open>Properties of the Fetcher\<close>

lemma first_seen_all_seen: "set xs \<subseteq> set seen \<Longrightarrow> first_seen seen xs = []"
  by (induction xs arbitrary: seen) auto

lemma first_seen_fresh:
  "distinct ks \<Longrightarrow> set ks \<inter> set seen = {} \<Longrightarrow>
   first_seen seen (ks @ rest) = ks @ first_seen (rev ks @ seen) rest"
  by (induction ks arbitrary: seen) auto

lemma columns_DataFrame_same_keys:
  assumes "ds \<noteq> []" and "\<forall>d \<in> set ds. map fst d = ks" and "distinct ks"
  shows "columns (DataFrame ds) = ks"
proof -
  obtain d ds' where ds: "ds = d # ds'" using assms(1) by (cases ds) auto
  with assms(2) have d: "map fst d = ks" by simp
  have "set (concat (map (map fst) ds')) \<subseteq> set ks"
    using assms(2) ds by auto
  then have "first_seen (rev ks @ []) (concat (map (map fst) ds')) = []"
    by (intro first_seen_all_seen) simp
  with first_seen_fresh [of ks "[]" "concat (map (map fst) ds')"] assms(3)
  show ?thesis by (simp add: DataFrame_def ds d)
qed

lemma rows_DataFrame: "rows (DataFrame ds) = ds"
  by (simp add: DataFrame_def)

lemma columns_DataFrame_Nil: "columns (DataFrame []) = []"
  by (simp add: DataFrame_def)

lemma keys_tweet_row: "tweet_row t = Inr r \<Longrightarrow> map fst r = keys"
  by (auto simp: tweet_row_def keys_def Let_def split: attr.splits)

lemma keys_sample_row: "map fst (sample_row i) = keys"
  by (simp add: sample_row_def keys_def split: prod.splits)

lemma distinct_keys: "distinct keys"
  by (simp add: keys_def)

lemma items_loop_rows:
  "items_loop g limit i acc = Inr rs \<Longrightarrow>
   \<exists>new. rs = acc @ new \<and> (\<forall>r \<in> set new. \<exists>t. tweet_row t = Inr r) \<and>
         int (length new) \<le> max 0 (limit - int i)"
proof (induction g limit i acc rule: items_loop.induct)
  case (1 g limit i acc)
  show ?case
  proof (cases "g i")
    case StopIteration
    with "1.prems" show ?thesis by (simp add: items_loop.simps [of g limit i acc])
  next
    case (Raise e)
    with "1.prems" show ?thesis by (simp add: items_loop.simps [of g limit i acc])
  next
    case (Yield t)
    show ?thesis
    proof (cases "limit \<le> int i")
      case True
      with Yield "1.prems" show ?thesis by (simp add: items_loop.simps [of g limit i acc])
    next
      case False
      show ?thesis
      proof (cases "tweet_row t")
        case (Inl e)
        with False Yield "1.prems" show ?thesis
          by (simp add: items_loop.simps [of g limit i acc])
      next
        case (Inr row)
        with False Yield "1.prems"
        have "items_loop g limit (Suc i) (acc @ [row]) = Inr rs"
          by (simp add: items_loop.simps [of g limit i acc])
        from "1.IH" [OF Yield _ Inr this] False
        obtain new where n: "rs = (acc @ [row]) @ new"
          "\<forall>r \<in> set new. \<exists>t. tweet_row t = Inr r"
          "int (length new) \<le> max 0 (limit - int (Suc i))"
          by auto
        have "rs = acc @ (row # new)" using n(1) by simp
        moreover have "\<forall>r \<in> set (row # new). \<exists>t. tweet_row t = Inr r"
          using n(2) Inr by auto
        moreover have "int (length (row # new)) \<le> max 0 (limit - int i)"
          using n(3) False by simp
        ultimately show ?thesis by blast
      qed
    qed
  qed
qed

lemma try_block_rows:
  assumes "try_block m q limit = Inr rs"
  shows "(\<forall>r \<in> set rs. \<exists>t. tweet_row t = Inr r) \<and> int (length rs) \<le> max 0 limit"
proof -
  from assms obtain g where "m q = Inr g" "items_loop g limit 0 [] = Inr rs"
    by (auto simp: try_block_def split: sum.splits)
  from items_loop_rows [OF this(2)] show ?thesis by auto
qed

lemma not_empty_live:
  assumes "try_block m q limit = Inr rs" and "rs \<noteq> []"
  shows "\<not> empty (DataFrame rs)" and "columns (DataFrame rs) = keys"
proof -
  have "\<forall>d \<in> set rs. map fst d = keys"
    using try_block_rows [OF assms(1)] keys_tweet_row by blast
  then show c: "columns (DataFrame rs) = keys"
    using assms(2) distinct_keys by (intro columns_DataFrame_same_keys) auto
  show "\<not> empty (DataFrame rs)"
    using assms(2) c by (simp add: empty_def rows_DataFrame keys_def)
qed

lemma empty_DataFrame_Nil: "empty (DataFrame [])"
  by (simp add: empty_def DataFrame_def)

lemma scrape_tweets_import_failed:
  "scrape_tweets (Inl e) q limit =
     Inr ([Info (''snscrape is not installed. Showing sample data. ''
                      @ ''Install dependencies to enable live scraping.'')],
          generate_sample_data limit)"
  by (simp add: scrape_tweets_def get_snscrape_def)

lemma scrape_tweets_raised:
  "try_block m q limit = Inl (Exception name) \<Longrightarrow>
   scrape_tweets (Inr m) q limit =
     Inr ([Warning (''Live scraping failed ('' @ name @ ''). Showing sample data instead.'')],
          generate_sample_data limit)"
  by (simp add: scrape_tweets_def get_snscrape_def)

lemma scrape_tweets_no_results:
  "try_block m q limit = Inr [] \<Longrightarrow>
   scrape_tweets (Inr m) q limit =
     Inr ([Info ''No live results returned. Showing sample data.''],
          generate_sample_data limit)"
  by (simp add: scrape_tweets_def get_snscrape_def empty_DataFrame_Nil)

lemma scrape_tweets_live:
  "try_block m q limit = Inr rs \<Longrightarrow> rs \<noteq> [] \<Longrightarrow>
   scrape_tweets (Inr m) q limit = Inr ([], DataFrame rs)"
  by (simp add: scrape_tweets_def get_snscrape_def not_empty_live Let_def)


lemma try_raising: "try_block raising_module ''q'' 5 = Inl (Exception ''ScraperException'')"
  by code_simp
lemma try_empty: "try_block (module_of []) ''q'' 5 = Inr []"
  by code_simp
lemma try_short: "try_block short_module ''q'' 5 = Inr [plain_row ''bob'', plain_row ''amy'']"
  by code_simp
lemma try_at: "try_block at_module ''q'' 1 = Inr [plain_row ''@bob'']"
  by code_simp
lemma at_bad: "\<not> handle_invariant (plain_row ''@bob'')"
  by code_simp


text \<open>
  Claim C1. Whatever the query and the limit, \<^verbatim>\<open>scrape_tweets\<close> returns a table and no
  exception leaves it. When the import of the search module raises, when the \<^verbatim>\<open>try\<close>
  block raises (opening the search, pulling an item or building a row), or when the
  loop ends with no record collected, the table returned is exactly
  \<open>generate_sample_data limit\<close>.
\<close>

theorem scrape_tweets_fallback:
  "(\<exists>ns df. scrape_tweets import_module q limit = Inr (ns, df)) \<and>
   ((\<exists>e. import_module = Inl e) \<longrightarrow>
      (\<exists>ns. scrape_tweets import_module q limit = Inr (ns, generate_sample_data limit))) \<and>
   (\<forall>m. import_module = Inr m \<and> (\<exists>e. try_block m q limit = Inl e) \<longrightarrow>
      (\<exists>ns. scrape_tweets import_module q limit = Inr (ns, generate_sample_data limit))) \<and>
   (\<forall>m. import_module = Inr m \<and> try_block m q limit = Inr [] \<longrightarrow>
      (\<exists>ns. scrape_tweets import_module q limit = Inr (ns, generate_sample_data limit)))"
proof (intro conjI allI impI)
  show "\<exists>ns df. scrape_tweets import_module q limit = Inr (ns, df)"
  proof (cases import_module)
    case (Inl e)
    then show ?thesis by (simp add: scrape_tweets_import_failed)
  next
    case (Inr m)
    show ?thesis
    proof (cases "try_block m q limit")
      case (Inl e)
      then show ?thesis using Inr by (cases e) (simp add: scrape_tweets_raised)
    next
      case r: (Inr rs)
      show ?thesis
      proof (cases "rs = []")
        case True
        with r Inr show ?thesis by (simp add: scrape_tweets_no_results)
      next
        case False
        with r Inr show ?thesis by (simp add: scrape_tweets_live)
      qed
    qed
  qed
next
  assume "\<exists>e. import_module = Inl e"
  then show "\<exists>ns. scrape_tweets import_module q limit = Inr (ns, generate_sample_data limit)"
    by (auto simp: scrape_tweets_import_failed)
next
  fix m assume "import_module = Inr m \<and> (\<exists>e. try_block m q limit = Inl e)"
  then obtain e where m: "import_module = Inr m" and e: "try_block m q limit = Inl e" by blast
  show "\<exists>ns. scrape_tweets import_module q limit = Inr (ns, generate_sample_data limit)"
    using e m by (cases e) (simp add: scrape_tweets_raised)
next
  fix m assume "import_module = Inr m \<and> try_block m q limit = Inr []"
  then show "\<exists>ns. scrape_tweets import_module q limit = Inr (ns, generate_sample_data limit)"
    by (simp add: scrape_tweets_no_results)
qed

theorem scrape_tweets_fallback_witness:
  "(\<exists>ns. scrape_tweets (Inl (Exception ''ModuleNotFoundError'')) ''q'' 5
          = Inr (ns, generate_sample_data 5)) \<and>
   try_block raising_module ''q'' 5 = Inl (Exception ''ScraperException'') \<and>
   (\<exists>ns. scrape_tweets (Inr raising_module) ''q'' 5 = Inr (ns, generate_sample_data 5)) \<and>
   try_block (module_of []) ''q'' 5 = Inr [] \<and>
   (\<exists>ns. scrape_tweets (Inr (module_of [])) ''q'' 5 = Inr (ns, generate_sample_data 5))"
proof -
  have a: "\<exists>ns. scrape_tweets (Inl (Exception ''ModuleNotFoundError'')) ''q'' 5
          = Inr (ns, generate_sample_data 5)"
    using scrape_tweets_fallback [of "Inl (Exception ''ModuleNotFoundError'')" "''q''" 5]
    by blast
  have b: "\<exists>ns. scrape_tweets (Inr raising_module) ''q'' 5 = Inr (ns, generate_sample_data 5)"
    using scrape_tweets_fallback [of "Inr raising_module" "''q''" 5] try_raising
    by blast
  have c: "\<exists>ns. scrape_tweets (Inr (module_of [])) ''q'' 5 = Inr (ns, generate_sample_data 5)"
    using scrape_tweets_fallback [of "Inr (module_of [])" "''q''" 5] try_empty
    by blast
  from a b c try_raising try_empty show ?thesis by blast
qed

lemma length_generate_sample_data:
  "length (rows (generate_sample_data n)) = nat n"
  by (simp add: rows_generate_sample_data length_py_range)

text \<open>
  Claim C5. For a positive limit the table returned by \<^verbatim>\<open>scrape_tweets\<close> has at most
  \<open>limit\<close> rows. When the loop ends without an exception with at least one record
  collected, the table returned holds exactly the collected records, in order, with no
  notice and no sample data; they are at most \<open>limit\<close>, possibly fewer.
\<close>

theorem scrape_tweets_length:
  "(0 < limit \<and> scrape_tweets import_module q limit = Inr (ns, df) \<longrightarrow>
      int (length (rows df)) \<le> limit) \<and>
   (try_block m q limit = Inr rs \<and> rs \<noteq> [] \<longrightarrow>
      scrape_tweets (Inr m) q limit = Inr ([], DataFrame rs) \<and> rows (DataFrame rs) = rs \<and>
      int (length rs) \<le> limit)"
proof (intro conjI impI)
  assume h: "0 < limit \<and> scrape_tweets import_module q limit = Inr (ns, df)"
  show "int (length (rows df)) \<le> limit"
  proof (cases import_module)
    case (Inl e)
    with h show ?thesis
      by (auto simp: scrape_tweets_import_failed length_generate_sample_data)
  next
    case (Inr m)
    show ?thesis
    proof (cases "try_block m q limit")
      case (Inl e)
      with h Inr show ?thesis
        by (cases e) (auto simp: scrape_tweets_raised length_generate_sample_data)
    next
      case r: (Inr rs)
      show ?thesis
      proof (cases "rs = []")
        case True
        with r Inr h show ?thesis
          by (auto simp: scrape_tweets_no_results length_generate_sample_data)
      next
        case False
        with r Inr h have "df = DataFrame rs" by (simp add: scrape_tweets_live)
        moreover have "int (length rs) \<le> max 0 limit" using try_block_rows [OF r] by simp
        ultimately show ?thesis using h by (simp add: rows_DataFrame)
      qed
    qed
  qed
next
  assume h: "try_block m q limit = Inr rs \<and> rs \<noteq> []"
  then show "scrape_tweets (Inr m) q limit = Inr ([], DataFrame rs)"
    by (simp add: scrape_tweets_live)
  show "rows (DataFrame rs) = rs" by (rule rows_DataFrame)
  from h have "int (length rs) \<le> max 0 limit" using try_block_rows [of m q limit rs] by simp
  moreover from h have "0 < length rs" by simp
  ultimately show "int (length rs) \<le> limit" by linarith
qed

theorem scrape_tweets_length_witness:
  "(0::int) < 5 \<and> try_block short_module ''q'' 5 = Inr [plain_row ''bob'', plain_row ''amy''] \<and>
   [plain_row ''bob'', plain_row ''amy''] \<noteq> [] \<and>
   scrape_tweets (Inr short_module) ''q'' 5
     = Inr ([], DataFrame [plain_row ''bob'', plain_row ''amy'']) \<and>
   int (length (rows (DataFrame [plain_row ''bob'', plain_row ''amy'']))) \<le> 5"
proof -
  note a = scrape_tweets_length [of 5 "Inr short_module" "''q''" "[]"
      "DataFrame [plain_row ''bob'', plain_row ''amy'']" short_module
      "[plain_row ''bob'', plain_row ''amy'']"]
  have s: "scrape_tweets (Inr short_module) ''q'' 5
     = Inr ([], DataFrame [plain_row ''bob'', plain_row ''amy''])"
    using a try_short by blast
  with a have "int (length (rows (DataFrame [plain_row ''bob'', plain_row ''amy'']))) \<le> 5"
    by simp
  with s try_short show ?thesis by simp
qed

section \<open>Record invariants\<close>

lemma template_handles:
  "\<forall>t \<in> set names. fst (snd t) \<noteq> [] \<and> hd (fst (snd t)) \<noteq> CHR ''@''"
  by (simp add: names_def)

lemma cell_sample_row:
  "cell (sample_row i) ''handle'' = Str (CHR ''@'' # fst (snd (names ! nat (i mod 8))))"
  "cell (sample_row i) ''location'' = Str (snd (snd (snd (names ! nat (i mod 8)))))"
  by (simp_all add: sample_row_def cell_def length_names split: prod.splits)

lemma sample_row_invariant:
  assumes "0 \<le> i"
  shows "is_str (cell (sample_row i) ''location'') \<and> handle_invariant (sample_row i) \<and>
         (\<exists>u. u \<noteq> [] \<and> cell (sample_row i) ''handle'' = Str (CHR ''@'' # u))"
proof -
  define h where "h = fst (snd (names ! nat (i mod 8)))"
  have "nat (i mod 8) < length names" using assms by (simp add: length_names)
  then have "names ! nat (i mod 8) \<in> set names" by (rule nth_mem)
  then have h: "h \<noteq> []" "hd h \<noteq> CHR ''@''"
    unfolding h_def using template_handles by blast+
  have c: "cell (sample_row i) ''handle'' = Str (CHR ''@'' # h)"
    by (simp add: cell_sample_row h_def)
  have "is_str (cell (sample_row i) ''location'')"
    by (simp add: cell_sample_row is_str_def)
  moreover have "handle_invariant (sample_row i)"
    using h by (cases h) (simp_all add: handle_invariant_def c at_once_def)
  moreover have "\<exists>u. u \<noteq> [] \<and> cell (sample_row i) ''handle'' = Str (CHR ''@'' # u)"
    using h(1) c by blast
  ultimately show ?thesis by blast
qed

lemma tweet_row_invariant:
  assumes "tweet_row t = Inr r"
  shows "is_str (cell r ''location'') \<and>
         (\<exists>h. cell r ''handle'' = Str h \<and> (h = [] \<or> (\<exists>u. u \<noteq> [] \<and> h = CHR ''@'' # u)))"
proof -
  from assms obtain u where u: "tweet_user t = Present u"
    by (auto simp: tweet_row_def split: attr.splits)
  define handle where "handle = py_or (getattr (user_attr u user_username) PyNone) (Str [])"
  define location where "location = py_or (getattr (user_attr u user_location) PyNone) (Str [])"
  have c: "cell r ''location'' = py_or location (Str [])"
       "cell r ''handle'' = (if truthy handle then Str (''@'' @ format handle) else Str [])"
    using assms u by (auto simp: tweet_row_def Let_def cell_def handle_def location_def)
  have "is_str (py_or location (Str []))"
    by (cases location) (auto simp: py_or_def is_str_def)
  moreover have "\<exists>h. (if truthy handle then Str (''@'' @ format handle) else Str []) = Str h \<and>
       (h = [] \<or> (\<exists>u. u \<noteq> [] \<and> h = CHR ''@'' # u))"
    by (cases handle) auto
  ultimately show ?thesis using c by simp
qed

lemma tweet_row_username:
  assumes "tweet_user t = Present (Some usr)" and "user_username usr = Present (Str u)" and "u \<noteq> []"
  shows "\<exists>r. tweet_row t = Inr r \<and> cell r ''handle'' = Str (CHR ''@'' # u)"
  using assms by (simp add: tweet_row_def Let_def cell_def user_attr_def getattr_def py_or_def)

lemma scrape_tweets_rows:
  assumes "scrape_tweets import_module q limit = Inr (ns, df)" and "r \<in> set (rows df)"
  shows "(\<exists>i \<ge> 0. r = sample_row i) \<or> (\<exists>t. tweet_row t = Inr r)"
proof -
  have sample: "(\<exists>i \<ge> 0. r = sample_row i)" if "r \<in> set (rows (generate_sample_data limit))"
    using that by (auto simp: rows_generate_sample_data py_range_def)
  show ?thesis
  proof (cases import_module)
    case (Inl e)
    with assms sample show ?thesis by (auto simp: scrape_tweets_import_failed)
  next
    case (Inr m)
    show ?thesis
    proof (cases "try_block m q limit")
      case (Inl e)
      with assms Inr sample show ?thesis by (cases e) (auto simp: scrape_tweets_raised)
    next
      case rr: (Inr rs)
      show ?thesis
      proof (cases "rs = []")
        case True
        with rr Inr assms sample show ?thesis by (auto simp: scrape_tweets_no_results)
      next
        case False
        with rr Inr assms have "r \<in> set rs" by (auto simp: scrape_tweets_live rows_DataFrame)
        with try_block_rows [OF rr] show ?thesis by blast
      qed
    qed
  qed
qed

text \<open>
  Claim C7 as stated fails for the handle. A search result whose user name is \<open>@bob\<close>
  is returned with the handle \<open>@@bob\<close>, which begins with \<open>@\<close> twice: the prefix is
  added to whatever non-empty user name the library delivers.
\<close>

theorem handle_prefix_counterexample:
  "scrape_tweets (Inr at_module) ''q'' 1 = Inr ([], DataFrame [plain_row ''@bob'']) \<and>
   rows (DataFrame [plain_row ''@bob'']) = [plain_row ''@bob''] \<and>
   cell (plain_row ''@bob'') ''handle'' = Str ''@@bob'' \<and>
   \<not> handle_invariant (plain_row ''@bob'')"
proof -
  have "scrape_tweets (Inr at_module) ''q'' 1 = Inr ([], DataFrame [plain_row ''@bob''])"
    using try_at by (simp add: scrape_tweets_live)
  moreover have "cell (plain_row ''@bob'') ''handle'' = Str ''@@bob''"
    by (simp add: plain_row_def cell_def)
  ultimately show ?thesis using at_bad by (simp add: rows_DataFrame)
qed

text \<open>
  Claim C7, amended. In every record of \<open>generate_sample_data n\<close> the location is a
  string and the handle begins with \<open>@\<close> exactly once. In every record of a table
  returned by \<^verbatim>\<open>scrape_tweets\<close> the location is a string, never \<^verbatim>\<open>None\<close>, and the handle
  is the empty string or \<open>@\<close> followed by at least one character. That character
  sequence is the user name the library delivered, unchanged: a tweet whose user name is
  the non-empty string \<open>u\<close> gives the handle \<open>@u\<close>.
\<close>

theorem record_invariants:
  "(\<forall>r \<in> set (rows (generate_sample_data n)).
      is_str (cell r ''location'') \<and> handle_invariant r) \<and>
   (scrape_tweets import_module q limit = Inr (ns, df) \<longrightarrow>
      (\<forall>r \<in> set (rows df).
         is_str (cell r ''location'') \<and>
         (\<exists>h. cell r ''handle'' = Str h \<and> (h = [] \<or> (\<exists>u. u \<noteq> [] \<and> h = CHR ''@'' # u))))) \<and>
   (tweet_user t = Present (Some usr) \<and> user_username usr = Present (Str u) \<and> u \<noteq> [] \<longrightarrow>
      (\<exists>r. tweet_row t = Inr r \<and> cell r ''handle'' = Str (CHR ''@'' # u)))"
proof (intro conjI ballI impI)
  fix r assume "r \<in> set (rows (generate_sample_data n))"
  then obtain i where "0 \<le> i" "r = sample_row i"
    by (auto simp: rows_generate_sample_data py_range_def)
  with sample_row_invariant [of i]
  show "is_str (cell r ''location'')" "handle_invariant r" by simp_all
next
  fix r
  assume s: "scrape_tweets import_module q limit = Inr (ns, df)" and r: "r \<in> set (rows df)"
  from scrape_tweets_rows [OF s r]
  have "is_str (cell r ''location'') \<and>
        (\<exists>h. cell r ''handle'' = Str h \<and> (h = [] \<or> (\<exists>u. u \<noteq> [] \<and> h = CHR ''@'' # u)))"
  proof
    assume "\<exists>i\<ge>0. r = sample_row i"
    then obtain i where i: "0 \<le> i" "r = sample_row i" by blast
    from sample_row_invariant [OF i(1)] i(2)
    show ?thesis by blast
  next
    assume "\<exists>t. tweet_row t = Inr r"
    then show ?thesis using tweet_row_invariant by blast
  qed
  then show "is_str (cell r ''location'')"
    and "\<exists>h. cell r ''handle'' = Str h \<and> (h = [] \<or> (\<exists>u. u \<noteq> [] \<and> h = CHR ''@'' # u))"
    by simp_all
next
  assume "tweet_user t = Present (Some usr) \<and> user_username usr = Present (Str u) \<and> u \<noteq> []"
  then show "\<exists>r. tweet_row t = Inr r \<and> cell r ''handle'' = Str (CHR ''@'' # u)"
    using tweet_row_username by blast
qed


lemma rows_sample_1: "rows (generate_sample_data 1) = [sample_row 0]"
  by (simp add: rows_generate_sample_data py_range_def upto.simps)

lemma scrape_short:
  "scrape_tweets (Inr short_module) ''q'' 5
     = Inr ([], DataFrame [plain_row ''bob'', plain_row ''amy''])"
  using try_short by (simp add: scrape_tweets_live)

lemma plain_tweet_user:
  "tweet_user (plain_tweet ''bob'') =
     Present (Some \<lparr>user_username = Present (Str ''bob''),
                     user_displayname = Present (Str ''Bob''),
                     user_location = Present PyNone\<rparr>)"
  by (simp add: plain_tweet_def)

theorem record_invariants_witness:
  "sample_row 0 \<in> set (rows (generate_sample_data 1)) \<and>
   is_str (cell (sample_row 0) ''location'') \<and> handle_invariant (sample_row 0) \<and>
   scrape_tweets (Inr short_module) ''q'' 5
     = Inr ([], DataFrame [plain_row ''bob'', plain_row ''amy'']) \<and>
   plain_row ''bob'' \<in> set (rows (DataFrame [plain_row ''bob'', plain_row ''amy''])) \<and>
   is_str (cell (plain_row ''bob'') ''location'') \<and>
   (\<exists>r. tweet_row (plain_tweet ''bob'') = Inr r \<and> cell r ''handle'' = Str ''@bob'')"
proof -
  have m1: "sample_row 0 \<in> set (rows (generate_sample_data 1))"
    by (simp add: rows_sample_1)
  have m2: "plain_row ''bob'' \<in> set (rows (DataFrame [plain_row ''bob'', plain_row ''amy'']))"
    by (simp add: rows_DataFrame)
  note a = record_invariants [of 1 "Inr short_module" "''q''" 5 "[]"
      "DataFrame [plain_row ''bob'', plain_row ''amy'']" "plain_tweet ''bob''"
      "\<lparr>user_username = Present (Str ''bob''), user_displayname = Present (Str ''Bob''),
        user_location = Present PyNone\<rparr>" "''bob''"]
  from a m1 have s: "is_str (cell (sample_row 0) ''location'') \<and> handle_invariant (sample_row 0)"
    by blast
  from a scrape_short m2 have p: "is_str (cell (plain_row ''bob'') ''location'')"
    by blast
  from a plain_tweet_user
  have u: "\<exists>r. tweet_row (plain_tweet ''bob'') = Inr r \<and> cell r ''handle'' = Str ''@bob''"
    by simp
  from m1 m2 s p u scrape_short show ?thesis by blast
qed

section \<open>Properties of the CSV export and the page script\<close>

lemma split_not_Nil: "split sep s \<noteq> []"
  by (induction s) (auto split: list.splits)

lemma split_line: "sep \<notin> set h \<Longrightarrow> split sep (h @ sep # rest) = h # split sep rest"
  by (induction h) (auto split: list.splits)

lemma split_no_sep: "sep \<notin> set h \<Longrightarrow> split sep h = [h]"
  by (induction h) (auto split: list.splits)

lemma split_lines:
  "\<forall>l \<in> set ls. sep \<notin> set l \<Longrightarrow>
   split sep (concat (map (\<lambda>l. l @ [sep]) ls)) = ls @ [[]]"
  by (induction ls) (simp_all add: split_line)

lemma splitlines_lines:
  assumes "\<forall>l \<in> set ls. CHR 0x0A \<notin> set l"
  shows "splitlines (concat (map (\<lambda>l. l @ [CHR 0x0A]) ls)) = ls"
proof (cases ls)
  case Nil
  then show ?thesis by (simp add: splitlines_def)
next
  case (Cons l ls')
  then have "concat (map (\<lambda>l. l @ [CHR 0x0A]) ls) \<noteq> []" by simp
  then show ?thesis
    using split_lines [OF assms] by (simp add: splitlines_def Let_def)
qed

lemma header_row: "writerow keys = ''display_name,handle,text,url,location'' @ [CHR 0x0A]"
  by code_simp

lemma set_join: "set (join sep fs) \<subseteq> set sep \<union> \<Union> (set ` set fs)"
  by (induction sep fs rule: join.induct) auto

lemma set_quote_field: "set (quote_field f) \<subseteq> insert (CHR 0x22) (set f)"
  by (auto simp: quote_field_def split: if_splits)

lemma writerow_row_text: "writerow fs = row_text fs @ [CHR 0x0A]"
  by (simp add: writerow_def)

lemma row_text_no_newline:
  assumes "\<forall>f \<in> set fs. CHR 0x0A \<notin> set f"
  shows "CHR 0x0A \<notin> set (row_text fs)"
proof
  assume a: "CHR 0x0A \<in> set (row_text fs)"
  show False
  proof (cases "fs = [[]]")
    case True
    with a show False by (simp add: row_text_def)
  next
    case False
    with a have "CHR 0x0A \<in> set (join '','' (map quote_field fs))" by (simp add: row_text_def)
    with set_join [of "'',''" "map quote_field fs"]
    obtain f where "f \<in> set fs" "CHR 0x0A \<in> set (quote_field f)" by auto
    with set_quote_field [of f] assms show False by auto
  qed
qed

lemma to_csv_lines:
  "to_csv df = concat (map (\<lambda>l. l @ [CHR 0x0A])
      (row_text (columns df) #
       map (\<lambda>r. row_text (map (\<lambda>c. csv_text (cell r c)) (columns df))) (rows df)))"
  by (simp add: to_csv_def writerow_row_text comp_def)


lemma py_range_not_Nil: "0 < n \<Longrightarrow> py_range n \<noteq> []"
  by (simp add: py_range_def upto.simps)

lemma columns_generate_sample_data:
  "0 < n \<Longrightarrow> columns (generate_sample_data n) = keys"
  unfolding generate_sample_data_def foldl_append_map
  by (rule columns_DataFrame_same_keys)
     (auto simp: py_range_not_Nil keys_sample_row distinct_keys)

lemma generate_sample_data_0: "generate_sample_data 0 = \<lparr>columns = [], rows = []\<rparr>"
  by (simp add: generate_sample_data_def DataFrame_def py_range_def)

lemma to_csv_keys:
  assumes "columns df = keys"
  shows "to_csv df = ''display_name,handle,text,url,location'' @ [CHR 0x0A]
           @ concat (map (\<lambda>r. writerow [csv_text (cell r ''display_name''),
                                          csv_text (cell r ''handle''),
                                          csv_text (cell r ''text''),
                                          csv_text (cell r ''url''),
                                          csv_text (cell r ''location'')]) (rows df))"
proof -
  have "map (\<lambda>c. csv_text (cell r c)) keys =
          [csv_text (cell r ''display_name''), csv_text (cell r ''handle''),
           csv_text (cell r ''text''), csv_text (cell r ''url''),
           csv_text (cell r ''location'')]" for r
    by (simp add: keys_def)
  then show ?thesis
    using header_row by (simp add: to_csv_def assms)
qed

lemma row_text_keys: "row_text keys = ''display_name,handle,text,url,location''"
  using header_row by (simp add: writerow_def)

lemma first_line:
  assumes "columns df = keys"
  shows "hd (splitlines (to_csv df)) = ''display_name,handle,text,url,location''"
proof -
  let ?h = "''display_name,handle,text,url,location''"
  obtain rest where r: "to_csv df = ?h @ CHR 0x0A # rest"
    using to_csv_keys [OF assms] by simp
  have n: "CHR 0x0A \<notin> set ?h" by simp
  have s: "split (CHR 0x0A) (to_csv df) = ?h # split (CHR 0x0A) rest"
    unfolding r using n by (rule split_line)
  obtain q qs where q: "split (CHR 0x0A) rest = q # qs"
    using split_not_Nil [of "CHR 0x0A" rest] by (cases "split (CHR 0x0A) rest") auto
  have "to_csv df \<noteq> []" using r by simp
  then show ?thesis
    by (simp add: splitlines_def Let_def s q)
qed

lemma line_count:
  assumes "columns df = keys"
    and "\<forall>r \<in> set (rows df). \<forall>c \<in> set keys. CHR 0x0A \<notin> set (csv_text (cell r c))"
  shows "length (splitlines (to_csv df)) = 1 + length (rows df)"
proof -
  let ?ls = "row_text (columns df) #
       map (\<lambda>r. row_text (map (\<lambda>c. csv_text (cell r c)) (columns df))) (rows df)"
  have "CHR 0x0A \<notin> set (row_text (columns df))"
    by (simp add: assms(1) row_text_keys)
  moreover have "CHR 0x0A \<notin> set (row_text (map (\<lambda>c. csv_text (cell r c)) (columns df)))"
    if "r \<in> set (rows df)" for r
    using that assms by (intro row_text_no_newline) auto
  ultimately have "\<forall>l \<in> set ?ls. CHR 0x0A \<notin> set l" by auto
  then have "splitlines (concat (map (\<lambda>l. l @ [CHR 0x0A]) ?ls)) = ?ls"
    by (rule splitlines_lines)
  then have "splitlines (to_csv df) = ?ls" by (simp only: to_csv_lines)
  then show ?thesis by simp
qed


lemma digit_in: "d < 10 \<Longrightarrow> digit d \<in> set ''0123456789''"
  unfolding digit_def by (rule nth_mem) simp

lemma str_nat_digits: "set (str_nat n) \<subseteq> set ''0123456789''"
proof (induction n rule: str_nat.induct)
  case (1 n)
  show ?case
  proof (cases "n < 10")
    case True
    then show ?thesis using digit_in [of n] by (simp add: str_nat.simps [of n])
  next
    case False
    have "digit (n mod 10) \<in> set ''0123456789''" by (rule digit_in) simp
    with False "1.IH" show ?thesis by (simp add: str_nat.simps [of n])
  qed
qed

lemma str_int_no_newline: "CHR 0x0A \<notin> set (str_int i)"
  using str_nat_digits [of "nat i"] str_nat_digits [of "nat (- i)"]
  by (auto simp: str_int_def)

lemma names_no_newline:
  "\<forall>t \<in> set names. CHR 0x0A \<notin> set (fst t) \<and> CHR 0x0A \<notin> set (fst (snd t)) \<and>
      CHR 0x0A \<notin> set (fst (snd (snd t))) \<and> CHR 0x0A \<notin> set (snd (snd (snd t)))"
  by (simp add: names_def)

lemma sample_row_alt:
  "sample_row i = (let t = names ! nat (i mod 8) in
        [(''display_name'', Str (fst t)),
         (''handle'', Str (''@'' @ fst (snd t))),
         (''text'', Str (fst (snd (snd t)) @ '' #'' @ str_int (1000 + i))),
         (''url'', Str (''https://twitter.com/'' @ fst (snd t) @ ''/status/''
                        @ str_int (1700000000000000000 + i))),
         (''location'', Str (snd (snd (snd t))))])"
  by (simp add: sample_row_def length_names split: prod.splits)

lemma sample_row_no_newline:
  assumes "0 \<le> i" and "(k, v) \<in> set (sample_row i)"
  shows "CHR 0x0A \<notin> set (csv_text v)"
proof -
  define t where "t = names ! nat (i mod 8)"
  have "nat (i mod 8) < length names" using assms(1) by (simp add: length_names)
  then have "t \<in> set names" unfolding t_def by (rule nth_mem)
  with names_no_newline
  have n: "CHR 0x0A \<notin> set (fst t)" "CHR 0x0A \<notin> set (fst (snd t))"
      "CHR 0x0A \<notin> set (fst (snd (snd t)))" "CHR 0x0A \<notin> set (snd (snd (snd t)))"
    by blast+
  from assms(2) have "v \<in> {Str (fst t), Str (''@'' @ fst (snd t)),
      Str (fst (snd (snd t)) @ '' #'' @ str_int (1000 + i)),
      Str (''https://twitter.com/'' @ fst (snd t) @ ''/status/''
            @ str_int (1700000000000000000 + i)),
      Str (snd (snd (snd t)))}"
    by (auto simp: sample_row_alt t_def Let_def)
  with n str_int_no_newline show ?thesis
    by (auto simp: csv_text_def)
qed

lemma cell_cases: "cell r c = PyNone \<or> (c, cell r c) \<in> set r"
  by (auto simp: cell_def split: option.splits dest: map_of_SomeD)

lemma sample_no_newline:
  assumes "r \<in> set (rows (generate_sample_data n))"
  shows "CHR 0x0A \<notin> set (csv_text (cell r c))"
proof -
  from assms obtain i where i: "0 \<le> i" "r = sample_row i"
    by (auto simp: rows_generate_sample_data py_range_def)
  from cell_cases [of r c] show ?thesis
  proof
    assume "cell r c = PyNone"
    then show ?thesis by (simp add: csv_text_def)
  next
    assume "(c, cell r c) \<in> set r"
    with i show ?thesis using sample_row_no_newline by blast
  qed
qed

lemma sample_line_count:
  "0 < n \<Longrightarrow> length (splitlines (to_csv (generate_sample_data n))) = 1 + nat n"
  using line_count [of "generate_sample_data n"] sample_no_newline
  by (simp add: columns_generate_sample_data length_generate_sample_data)


lemma columns_set_column: "label \<in> set (columns (set_column df label col))"
  by (simp add: set_column_def)

lemma ranked_ok: "''location'' \<in> set (columns df) \<Longrightarrow> \<exists>counts. ranked df = Inr counts"
  by (simp add: ranked_def groupby_size_def getitem_def Let_def)

lemma charts_cases:
  "charts altair st a =
     (if empty (st ! a) then Inr (st, NoData)
      else if ''location'' \<in> set (columns (st ! a))
        then (case ranked (set_column (st ! a) ''location''
                     (replace [] ''Unknown'' (fillna [] (map (\<lambda>r. cell r ''location'') (rows (st ! a)))))) of
                Inl e \<Rightarrow> Inl e
              | Inr counts \<Rightarrow>
                  Inr (st @ [set_column (st ! a) ''location''
                     (replace [] ''Unknown'' (fillna [] (map (\<lambda>r. cell r ''location'') (rows (st ! a)))))],
                       if altair then Chart counts else Skipped))
        else Inl (Exception ''KeyError''))"
  by (simp add: charts_def getitem_def assign_def alloc_def)

lemma charts_store:
  assumes "charts altair st a = Inr (st', ch)"
  shows "\<exists>new. st' = st @ new"
  using assms by (auto simp: charts_cases split: if_splits sum.splits)

lemma charts_ok:
  assumes "''location'' \<in> set (columns (st ! a))"
  shows "\<exists>new ch. charts altair st a = Inr (st @ new, ch)"
proof (cases "empty (st ! a)")
  case True
  then have "charts altair st a = Inr (st @ [], NoData)" by (simp add: charts_cases)
  then show ?thesis by blast
next
  case False
  let ?d = "set_column (st ! a) ''location''
      (replace [] ''Unknown'' (fillna [] (map (\<lambda>r. cell r ''location'') (rows (st ! a)))))"
  obtain counts where "ranked ?d = Inr counts"
    using ranked_ok [OF columns_set_column] by blast
  with False assms
  have "charts altair st a = Inr (st @ [?d], if altair then Chart counts else Skipped)"
    by (simp add: charts_cases)
  then show ?thesis by blast
qed

lemma charts_same_store:
  assumes "charts True st a = Inr (s1, c1)" and "charts False st a = Inr (s2, c2)"
  shows "s1 = s2"
  using assms by (auto simp: charts_cases split: if_splits sum.splits)

lemma feed_ok: "columns df = keys \<Longrightarrow> \<exists>cards. feed df = Inr cards"
  by (simp add: feed_def)

lemma filter_columns: "apply_region_filter df s = Inr d \<Longrightarrow> columns d = columns df"
  by (auto simp: apply_region_filter_tokens split: if_splits)

lemma scrape_columns:
  assumes "0 < limit" and "scrape_tweets import_module q limit = Inr (ns, df)"
  shows "columns df = keys"
proof (cases import_module)
  case (Inl e)
  with assms show ?thesis
    by (auto simp: scrape_tweets_import_failed columns_generate_sample_data)
next
  case (Inr m)
  show ?thesis
  proof (cases "try_block m q limit")
    case (Inl e)
    with assms Inr show ?thesis
      by (cases e) (auto simp: scrape_tweets_raised columns_generate_sample_data)
  next
    case r: (Inr rs)
    show ?thesis
    proof (cases "rs = []")
      case True
      with r Inr assms show ?thesis
        by (auto simp: scrape_tweets_no_results columns_generate_sample_data)
    next
      case False
      with r Inr assms have "df = DataFrame rs" by (simp add: scrape_tweets_live)
      with not_empty_live(2) [OF r False] show ?thesis by simp
    qed
  qed
qed

lemma fetch_columns:
  "0 < max_tweets \<Longrightarrow> fetch live import_module q max_tweets = Inr (ns, df) \<Longrightarrow> columns df = keys"
  by (auto simp: fetch_def scrape_columns columns_generate_sample_data split: if_splits)

lemma location_in_keys: "''location'' \<in> set keys"
  by (simp add: keys_def)

lemma script_page:
  assumes "fetch live import_module (query keywords) max_tweets = Inr (ns, df)"
    and "apply_region_filter df region = Inr d" and "columns d = keys"
  shows "\<exists>ch cards. feed d = Inr cards \<and>
     script keywords max_tweets region live import_module altair =
       Inr \<lparr>page_query = query keywords, page_notices = ns, page_showing = length (rows d),
            page_of = length (rows df), page_csv = to_csv d, page_chart = ch,
            page_feed = cards\<rparr>"
proof -
  have "''location'' \<in> set (columns ([df, d] ! 1))"
    using assms(3) location_in_keys by simp
  from charts_ok [OF this, of altair] obtain new ch
    where c: "charts altair [df, d] 1 = Inr ([df, d] @ new, ch)" by blast
  obtain cards where f: "feed d = Inr cards" using feed_ok [OF assms(3)] by blast
  show ?thesis
    using assms(1,2) c f by (auto simp: script_def Let_def)
qed

lemma script_inv:
  assumes "script keywords max_tweets region live import_module altair = Inr p"
  shows "\<exists>ns df d. fetch live import_module (query keywords) max_tweets = Inr (ns, df) \<and>
           apply_region_filter df region = Inr d \<and> page_csv p = to_csv d \<and>
           feed d = Inr (page_feed p) \<and> page_showing p = length (rows d) \<and>
           page_of p = length (rows df)"
proof -
  from assms obtain ns df where f: "fetch live import_module (query keywords) max_tweets = Inr (ns, df)"
    by (auto simp: script_def split: sum.splits)
  from assms f obtain d where d: "apply_region_filter df region = Inr d"
    by (auto simp: script_def split: sum.splits)
  from assms f d obtain st' ch where c: "charts altair [df, d] 1 = Inr (st', ch)"
    by (auto simp: script_def Let_def split: sum.splits)
  from charts_store [OF c] obtain new where "st' = [df, d] @ new" by blast
  then have n: "st' ! 1 = d" by simp
  from assms f d c n obtain cards where
    "feed d = Inr cards" and
    "p = \<lparr>page_query = query keywords, page_notices = ns, page_showing = length (rows d),
            page_of = length (rows df), page_csv = to_csv d, page_chart = ch,
            page_feed = cards\<rparr>"
    by (auto simp: script_def Let_def split: sum.splits)
  with f d show ?thesis by auto
qed

lemma to_csv_empty: "to_csv \<lparr>columns = [], rows = []\<rparr> = [CHR 0x0A]"
  by (simp add: to_csv_def writerow_def row_text_def)

lemma splitlines_newline: "splitlines [CHR 0x0A] = [[]]"
  by (simp add: splitlines_def)

text \<open>
  Claim C10. For \<open>n = 0\<close> the Sample Generator returns a table with no row and no
  column: the five labels are absent. Its CSV is a single empty line, so its first line
  is not the header \<open>display_name,handle,text,url,location\<close>. For every \<open>n > 0\<close> the table
  has the five columns and its CSV is the header line followed by \<open>n\<close> lines.
\<close>

theorem generate_sample_data_zero:
  "generate_sample_data 0 = \<lparr>columns = [], rows = []\<rparr> \<and>
   to_csv (generate_sample_data 0) = [CHR 0x0A] \<and>
   splitlines (to_csv (generate_sample_data 0)) = [[]] \<and>
   hd (splitlines (to_csv (generate_sample_data 0))) \<noteq> ''display_name,handle,text,url,location'' \<and>
   (0 < n \<longrightarrow>
      columns (generate_sample_data n) = keys \<and>
      hd (splitlines (to_csv (generate_sample_data n))) = ''display_name,handle,text,url,location'' \<and>
      length (splitlines (to_csv (generate_sample_data n))) = 1 + nat n)"
proof (intro conjI impI)
  show z: "generate_sample_data 0 = \<lparr>columns = [], rows = []\<rparr>"
    by (rule generate_sample_data_0)
  show c: "to_csv (generate_sample_data 0) = [CHR 0x0A]"
    by (simp only: z to_csv_empty)
  show s: "splitlines (to_csv (generate_sample_data 0)) = [[]]"
    by (simp only: c splitlines_newline)
  show "hd (splitlines (to_csv (generate_sample_data 0))) \<noteq> ''display_name,handle,text,url,location''"
    by (simp add: s)
next
  assume n: "0 < n"
  then show k: "columns (generate_sample_data n) = keys"
    by (rule columns_generate_sample_data)
  show "hd (splitlines (to_csv (generate_sample_data n))) = ''display_name,handle,text,url,location''"
    using k by (rule first_line)
  show "length (splitlines (to_csv (generate_sample_data n))) = 1 + nat n"
    using n by (rule sample_line_count)
qed

theorem generate_sample_data_zero_witness:
  "(0::int) < 3 \<and> columns (generate_sample_data 3) = keys \<and>
   hd (splitlines (to_csv (generate_sample_data 3))) = ''display_name,handle,text,url,location'' \<and>
   length (splitlines (to_csv (generate_sample_data 3))) = 4"
  using generate_sample_data_zero [of 3] by simp

text \<open>
  Claim C6. For a table with the five Record columns the CSV is the line
  \<open>display_name,handle,text,url,location\<close> followed by one written row per record, in
  table order, of exactly the five cells (no index column); the header is its first
  line, and when no cell holds a line break the CSV has one line more than the table has
  records. In a run of the script with a positive \<open>max_tweets\<close> the exported text is the
  CSV of the filtered table, which has the five columns. With live mode off,
  \<open>max_tweets = 40\<close> and an empty region filter the export has exactly 41 lines and the
  page reports 40 of 40.
\<close>

theorem csv_export:
  "(columns df = keys \<longrightarrow>
      to_csv df = ''display_name,handle,text,url,location'' @ [CHR 0x0A]
           @ concat (map (\<lambda>r. writerow [csv_text (cell r ''display_name''),
                                          csv_text (cell r ''handle''),
                                          csv_text (cell r ''text''),
                                          csv_text (cell r ''url''),
                                          csv_text (cell r ''location'')]) (rows df)) \<and>
      hd (splitlines (to_csv df)) = ''display_name,handle,text,url,location'' \<and>
      ((\<forall>r \<in> set (rows df). \<forall>c \<in> set keys. CHR 0x0A \<notin> set (csv_text (cell r c))) \<longrightarrow>
         length (splitlines (to_csv df)) = 1 + length (rows df))) \<and>
   (0 < max_tweets \<and> script keywords max_tweets region live import_module altair = Inr p \<longrightarrow>
      (\<exists>ns fetched df_filtered.
         fetch live import_module (query keywords) max_tweets = Inr (ns, fetched) \<and>
         apply_region_filter fetched region = Inr df_filtered \<and>
         columns df_filtered = keys \<and> page_csv p = to_csv df_filtered \<and>
         page_showing p = length (rows df_filtered))) \<and>
   (\<exists>p. script keywords 40 [] False import_module altair = Inr p \<and>
        page_csv p = to_csv (generate_sample_data 40) \<and>
        length (splitlines (page_csv p)) = 41 \<and>
        hd (splitlines (page_csv p)) = ''display_name,handle,text,url,location'' \<and>
        page_showing p = 40 \<and> page_of p = 40)"
proof (intro conjI impI)
  assume k: "columns df = keys"
  show "to_csv df = ''display_name,handle,text,url,location'' @ [CHR 0x0A]
           @ concat (map (\<lambda>r. writerow [csv_text (cell r ''display_name''),
                                          csv_text (cell r ''handle''),
                                          csv_text (cell r ''text''),
                                          csv_text (cell r ''url''),
                                          csv_text (cell r ''location'')]) (rows df))"
    using k by (rule to_csv_keys)
  show "hd (splitlines (to_csv df)) = ''display_name,handle,text,url,location''"
    using k by (rule first_line)
  show "length (splitlines (to_csv df)) = 1 + length (rows df)"
    if "\<forall>r \<in> set (rows df). \<forall>c \<in> set keys. CHR 0x0A \<notin> set (csv_text (cell r c))"
    using k that by (rule line_count)
next
  assume h: "0 < max_tweets \<and> script keywords max_tweets region live import_module altair = Inr p"
  from script_inv [OF conjunct2 [OF h]]
  obtain ns fetched d where
    f: "fetch live import_module (query keywords) max_tweets = Inr (ns, fetched)" and
    d: "apply_region_filter fetched region = Inr d" and
    c: "page_csv p = to_csv d" "page_showing p = length (rows d)"
    by blast
  have "columns d = keys"
    using filter_columns [OF d] fetch_columns [OF _ f] h by simp
  with f d c show "\<exists>ns fetched df_filtered.
         fetch live import_module (query keywords) max_tweets = Inr (ns, fetched) \<and>
         apply_region_filter fetched region = Inr df_filtered \<and>
         columns df_filtered = keys \<and> page_csv p = to_csv df_filtered \<and>
         page_showing p = length (rows df_filtered)"
    by blast
next
  let ?d = "generate_sample_data 40"
  have f: "fetch False import_module (query keywords) 40 = Inr ([], ?d)"
    by (simp add: fetch_def)
  have a: "apply_region_filter ?d [] = Inr ?d"
    by (simp add: apply_region_filter_def strip_def)
  have k: "columns ?d = keys" by (simp add: columns_generate_sample_data)
  from script_page [OF f a k, of altair] obtain ch cards where
    s: "script keywords 40 [] False import_module altair =
       Inr \<lparr>page_query = query keywords, page_notices = [], page_showing = length (rows ?d),
            page_of = length (rows ?d), page_csv = to_csv ?d, page_chart = ch,
            page_feed = cards\<rparr>"
    by blast
  have l: "length (rows ?d) = 40" by (simp add: length_generate_sample_data)
  have n: "length (splitlines (to_csv ?d)) = 41" by (simp add: sample_line_count)
  have h: "hd (splitlines (to_csv ?d)) = ''display_name,handle,text,url,location''"
    using k by (rule first_line)
  show "\<exists>p. script keywords 40 [] False import_module altair = Inr p \<and>
        page_csv p = to_csv (generate_sample_data 40) \<and>
        length (splitlines (page_csv p)) = 41 \<and>
        hd (splitlines (page_csv p)) = ''display_name,handle,text,url,location'' \<and>
        page_showing p = 40 \<and> page_of p = 40"
    using s l n h by simp
qed

lemma region_example_columns: "columns region_example = keys"
  by code_simp

lemma region_example_no_newline:
  "\<forall>r \<in> set (rows region_example). \<forall>c \<in> set keys. CHR 0x0A \<notin> set (csv_text (cell r c))"
  by code_simp

lemma region_example_rows: "length (rows region_example) = 4"
  by code_simp

theorem csv_export_witness:
  "columns region_example = keys \<and>
   hd (splitlines (to_csv region_example)) = ''display_name,handle,text,url,location'' \<and>
   list_all (\<lambda>r. list_all (\<lambda>c. CHR 0x0A \<notin> set (csv_text (cell r c))) keys)
     (rows region_example) \<and>
   length (splitlines (to_csv region_example)) = 5 \<and>
   (0::int) < 40 \<and>
   (\<exists>p. script ''ui'' 40 [] False (Inl (Exception ''ModuleNotFoundError'')) True = Inr p \<and>
        length (splitlines (page_csv p)) = 41 \<and>
        (\<exists>ns fetched df_filtered.
           fetch False (Inl (Exception ''ModuleNotFoundError'')) (query ''ui'') 40
             = Inr (ns, fetched) \<and>
           apply_region_filter fetched [] = Inr df_filtered \<and>
           columns df_filtered = keys \<and> page_csv p = to_csv df_filtered \<and>
           page_showing p = length (rows df_filtered)))"
proof -
  note a = csv_export [of region_example 40 "''ui''" "[]" False
      "Inl (Exception ''ModuleNotFoundError'')" True]
  note b = a [of undefined, THEN conjunct1, THEN mp, OF region_example_columns]
  have 1: "hd (splitlines (to_csv region_example)) = ''display_name,handle,text,url,location''"
    using b by (rule conjunct2 [THEN conjunct1])
  have "length (splitlines (to_csv region_example)) = 1 + length (rows region_example)"
    using b [THEN conjunct2, THEN conjunct2] region_example_no_newline by (rule mp)
  then have 2: "length (splitlines (to_csv region_example)) = 5"
    by (simp add: region_example_rows)
  from a [of undefined, THEN conjunct2, THEN conjunct2] obtain p where
    p: "script ''ui'' 40 [] False (Inl (Exception ''ModuleNotFoundError'')) True = Inr p"
       "length (splitlines (page_csv p)) = 41"
    by blast
  have "\<exists>ns fetched df_filtered.
           fetch False (Inl (Exception ''ModuleNotFoundError'')) (query ''ui'') 40
             = Inr (ns, fetched) \<and>
           apply_region_filter fetched [] = Inr df_filtered \<and>
           columns df_filtered = keys \<and> page_csv p = to_csv df_filtered \<and>
           page_showing p = length (rows df_filtered)"
    using a [of p, THEN conjunct2, THEN conjunct1] p(1) by simp
  moreover have "(0::int) < 40" by simp
  moreover have "list_all (\<lambda>r. list_all (\<lambda>c. CHR 0x0A \<notin> set (csv_text (cell r c))) keys)
     (rows region_example)"
    using region_example_no_newline by (simp add: list_all_iff)
  ultimately show ?thesis
    using p 1 2 region_example_columns by blast
qed

section \<open>Properties of the Aggregator and the chart section\<close>



lemma charts_example_skipped: "charts False [aggregator_example] 0 =
   Inr ([aggregator_example,
         set_column aggregator_example ''location''
           [Str ''Mumbai'', Str ''Mumbai'', Str ''Unknown'', Str ''Pune'']], Skipped)"
  by code_simp

lemma charts_example_chart: "charts True [aggregator_example] 0 =
   Inr ([aggregator_example,
         set_column aggregator_example ''location''
           [Str ''Mumbai'', Str ''Mumbai'', Str ''Unknown'', Str ''Pune'']],
        Chart [(''Mumbai'', 2), (''Pune'', 1), (''Unknown'', 1)])"
  by code_simp




lemma strs_labels:
  "concat (map (\<lambda>x. case x of PyNone \<Rightarrow> [] | Str s \<Rightarrow> [s]) (map (\<lambda>r. Str (label_of r)) rs))
     = map label_of rs"
  by (induction rs) simp_all












lemma aggregator_example_columns: "''location'' \<in> set (columns aggregator_example)"
  by code_simp


text \<open>
  Claim C9. The chart section leaves every table of the store as it was: \<^verbatim>\<open>assign\<close>
  puts the table with the substituted labels into a new object, so the filtered table
  has the same rows and fields afterwards, and its CSV and its feed are the same. The
  store after the section does not depend on whether the chart library is available.
  In a run of the script the exported CSV and the feed are those of the filtered table,
  and both are the same with and without the chart library.
\<close>

theorem charts_frame:
  "(a < length st \<and> charts altair st a = Inr (st', ch) \<longrightarrow>
      st' ! a = st ! a \<and> take (length st) st' = st \<and>
      to_csv (st' ! a) = to_csv (st ! a) \<and> feed (st' ! a) = feed (st ! a)) \<and>
   (''location'' \<in> set (columns (st ! a)) \<longrightarrow>
      (\<exists>s c1 c2. charts True st a = Inr (s, c1) \<and> charts False st a = Inr (s, c2))) \<and>
   (script keywords max_tweets region live import_module altair = Inr p \<longrightarrow>
      (\<exists>ns fetched df_filtered.
         fetch live import_module (query keywords) max_tweets = Inr (ns, fetched) \<and>
         apply_region_filter fetched region = Inr df_filtered \<and>
         page_csv p = to_csv df_filtered \<and> feed df_filtered = Inr (page_feed p))) \<and>
   (script keywords max_tweets region live import_module True = Inr p1 \<and>
    script keywords max_tweets region live import_module False = Inr p2 \<longrightarrow>
      page_csv p1 = page_csv p2 \<and> page_feed p1 = page_feed p2)"
proof (intro conjI impI)
  assume h: "a < length st \<and> charts altair st a = Inr (st', ch)"
  then obtain new where n: "st' = st @ new" using charts_store by blast
  with h show e: "st' ! a = st ! a" by (simp add: nth_append)
  show "take (length st) st' = st" using n by simp
  show "to_csv (st' ! a) = to_csv (st ! a)" by (simp only: e)
  show "feed (st' ! a) = feed (st ! a)" by (simp only: e)
next
  assume l: "''location'' \<in> set (columns (st ! a))"
  from charts_ok [OF l, of True] obtain n1 c1 where 1: "charts True st a = Inr (st @ n1, c1)"
    by blast
  from charts_ok [OF l, of False] obtain n2 c2 where 2: "charts False st a = Inr (st @ n2, c2)"
    by blast
  from charts_same_store [OF 1 2] 1 2
  show "\<exists>s c1 c2. charts True st a = Inr (s, c1) \<and> charts False st a = Inr (s, c2)"
    by auto
next
  assume "script keywords max_tweets region live import_module altair = Inr p"
  from script_inv [OF this]
  show "\<exists>ns fetched df_filtered.
         fetch live import_module (query keywords) max_tweets = Inr (ns, fetched) \<and>
         apply_region_filter fetched region = Inr df_filtered \<and>
         page_csv p = to_csv df_filtered \<and> feed df_filtered = Inr (page_feed p)"
    by blast
next
  assume h: "script keywords max_tweets region live import_module True = Inr p1 \<and>
    script keywords max_tweets region live import_module False = Inr p2"
  from script_inv [OF conjunct1 [OF h]] obtain ns1 f1 d1 where
    1: "fetch live import_module (query keywords) max_tweets = Inr (ns1, f1)"
       "apply_region_filter f1 region = Inr d1" "page_csv p1 = to_csv d1"
       "feed d1 = Inr (page_feed p1)"
    by blast
  from script_inv [OF conjunct2 [OF h]] obtain ns2 f2 d2 where
    2: "fetch live import_module (query keywords) max_tweets = Inr (ns2, f2)"
       "apply_region_filter f2 region = Inr d2" "page_csv p2 = to_csv d2"
       "feed d2 = Inr (page_feed p2)"
    by blast
  from 1(1) 2(1) have "f1 = f2" by simp
  with 1(2) 2(2) have d: "d1 = d2" by simp
  show "page_csv p1 = page_csv p2" using 1(3) 2(3) d by simp
  show "page_feed p1 = page_feed p2" using 1(4) 2(4) d by simp
qed

theorem charts_frame_witness:
  "(0::nat) < length [aggregator_example] \<and>
   charts True [aggregator_example] 0 =
     Inr ([aggregator_example,
           set_column aggregator_example ''location''
             [Str ''Mumbai'', Str ''Mumbai'', Str ''Unknown'', Str ''Pune'']],
          Chart [(''Mumbai'', 2), (''Pune'', 1), (''Unknown'', 1)]) \<and>
   [aggregator_example,
    set_column aggregator_example ''location''
      [Str ''Mumbai'', Str ''Mumbai'', Str ''Unknown'', Str ''Pune'']] ! 0 = aggregator_example \<and>
   ''location'' \<in> set (columns ([aggregator_example] ! 0)) \<and>
   (\<exists>s c1 c2. charts True [aggregator_example] 0 = Inr (s, c1) \<and>
              charts False [aggregator_example] 0 = Inr (s, c2))"
proof -
  note a = charts_frame [of 0 "[aggregator_example]" True
      "[aggregator_example, set_column aggregator_example ''location''
             [Str ''Mumbai'', Str ''Mumbai'', Str ''Unknown'', Str ''Pune'']]"
      "Chart [(''Mumbai'', 2), (''Pune'', 1), (''Unknown'', 1)]"]
  have l: "''location'' \<in> set (columns ([aggregator_example] ! 0))"
    using aggregator_example_columns by simp
  have "[aggregator_example,
    set_column aggregator_example ''location''
      [Str ''Mumbai'', Str ''Mumbai'', Str ''Unknown'', Str ''Pune'']] ! 0 = [aggregator_example] ! 0"
    using a [THEN conjunct1] charts_example_chart by simp
  moreover have "\<exists>s c1 c2. charts True [aggregator_example] 0 = Inr (s, c1) \<and>
              charts False [aggregator_example] 0 = Inr (s, c2)"
    using a [THEN conjunct2, THEN conjunct1] l by (rule mp)
  ultimately show ?thesis using charts_example_chart l by simp
qed

end
